theory Spec2Isabelle
  imports Main
begin

section \<open>Data model of the file history command handler\<close>

text \<open>
  The handler class \<^verbatim>\<open>GitFileHistoryCommandHandler\<close> of
  \<^verbatim>\<open>src/commandHandlers/fileCommit/fileHistory.ts\<close> has five command handlers and one
  private helper that formats the title of a comparison. The handlers are asynchronous
  and talk to four injected collaborators (git service, command manager, application
  shell, file system). The embedding keeps every call to a collaborator as an event of a
  trace, in the order in which the handler awaits it, and every rejection as an error
  value that ends the handler. Looking the git service factory up in the service
  container is not an event; the call of \<^verbatim>\<open>createGitService\<close> on it is. Commands and
  messages are recorded as they are issued and are taken to resolve.
\<close>

text \<open>\<^verbatim>\<open>Hash\<close>: the two representations of a commit hash.\<close>

record Hash =
  full :: string
  short :: string

text \<open>
  \<^verbatim>\<open>Uri\<close> of the editor API, reduced to the two properties the handlers read.
\<close>

record Uri =
  path :: string
  fsPath :: string

text \<open>
  Modelled from the spec: the enumeration \<^verbatim>\<open>Status\<close> is declared outside the handler's
  file; the data model describes it as the variant over Added, Modified, Deleted and
  Renamed/Other. The handlers compare a status with \<^verbatim>\<open>Status.Deleted\<close> and
  \<^verbatim>\<open>Status.Added\<close> only.
\<close>

datatype Status = Added | Modified | Deleted | RenamedOrOther

text \<open>\<^verbatim>\<open>CommittedFile\<close>: \<^verbatim>\<open>oldUri\<close> is optional and set for a renamed file.\<close>

record CommittedFile =
  uri :: Uri
  oldUri :: "Uri option"
  status :: Status

record LogEntry =
  hash :: Hash

text \<open>
  \<^verbatim>\<open>CommitDetails\<close>, \<^verbatim>\<open>FileCommitDetails\<close> and \<^verbatim>\<open>CompareFileCommitDetails\<close> form a
  chain of subclasses; each record extends the previous one.
\<close>

record CommitDetails =
  workspaceFolder :: string
  logEntry :: LogEntry

record FileCommitDetails = CommitDetails +
  committedFile :: CommittedFile

record CompareFileCommitDetails = FileCommitDetails +
  rightCommit :: FileCommitDetails

text \<open>
  The argument type \<^verbatim>\<open>FileNode | FileCommitDetails\<close>. A \<^verbatim>\<open>FileNode\<close> carries its entry
  in the field \<^verbatim>\<open>data\<close>, which may be undefined.
\<close>

datatype NodeOrFileCommit =
    FileCommit FileCommitDetails
  | FileNode "FileCommitDetails option"

text \<open>The object literal \<^verbatim>\<open>{ file: Uri; hash: Hash }\<close> taken by the title helper
  (\<open>file\<close> is a keyword of the theory language, hence the primes).\<close>

record FileAtHash =
  file' :: Uri
  hash' :: Hash

section \<open>Effects\<close>

text \<open>
  A handler ends either normally or with a rejection: the \<^verbatim>\<open>TypeError\<close> of reading a
  property of \<^verbatim>\<open>undefined\<close>, or the failure of a call to the git service.
\<close>

datatype error = TypeError | ServiceFailure string

datatype cmd_arg = UriArg Uri | TitleArg string | PreviewArg bool

datatype event =
    CreateGitService string
  | GetCommitFile string Uri
  | GetPreviousCommitHashForFile string Uri
  | FileExistsAsync string
  | ExecuteCommand string "cmd_arg list"
  | ShowErrorMessage string

text \<open>
  The collaborators whose answers a handler depends on. The git service may reject;
  the existence check answers with a boolean. \<^verbatim>\<open>uriFile\<close> is \<^verbatim>\<open>Uri.file\<close> of the editor
  API and \<^verbatim>\<open>basename\<close> is \<^verbatim>\<open>path.basename\<close> of the runtime: both are library functions
  outside the repository and stay parameters.
\<close>

record services =
  getCommitFile :: "string \<Rightarrow> Uri \<Rightarrow> error + Uri"
  getPreviousCommitHashForFile :: "string \<Rightarrow> Uri \<Rightarrow> error + Hash"
  fileExistsAsync :: "string \<Rightarrow> bool"
  uriFile :: "string \<Rightarrow> Uri"
  basename :: "string \<Rightarrow> string"

type_synonym 'a io = "event list \<times> (error + 'a)"

definition throw_io :: "error \<Rightarrow> 'a io" where
  "throw_io e = ([], Inl e)"

text \<open>Sequencing of two awaited steps: a rejection skips everything after it.\<close>

definition bind_io :: "'a io \<Rightarrow> ('a \<Rightarrow> 'b io) \<Rightarrow> 'b io" where
  "bind_io m f =
     (case m of
        (t, Inl e) \<Rightarrow> (t, Inl e)
      | (t, Inr x) \<Rightarrow> (case f x of (t', r) \<Rightarrow> (t @ t', r)))"

definition createGitService :: "string \<Rightarrow> unit io" where
  "createGitService folder = ([CreateGitService folder], Inr ())"

definition callGetCommitFile :: "services \<Rightarrow> string \<Rightarrow> Uri \<Rightarrow> Uri io" where
  "callGetCommitFile sv h f = ([GetCommitFile h f], getCommitFile sv h f)"

definition callGetPreviousCommitHashForFile :: "services \<Rightarrow> string \<Rightarrow> Uri \<Rightarrow> Hash io" where
  "callGetPreviousCommitHashForFile sv h f =
     ([GetPreviousCommitHashForFile h f], getPreviousCommitHashForFile sv h f)"

definition callFileExistsAsync :: "services \<Rightarrow> string \<Rightarrow> bool io" where
  "callFileExistsAsync sv p = ([FileExistsAsync p], Inr (fileExistsAsync sv p))"

definition executeCommand :: "string \<Rightarrow> cmd_arg list \<Rightarrow> unit io" where
  "executeCommand c args = ([ExecuteCommand c args], Inr ())"

definition showErrorMessage :: "string \<Rightarrow> unit io" where
  "showErrorMessage m = ([ShowErrorMessage m], Inr ())"

section \<open>The title helper\<close>

text \<open>The three bytes of the character U+2194 (left right arrow) in UTF-8.\<close>

definition arrow :: string where
  "arrow = [CHR 0xE2, CHR 0x86, CHR 0x94]"

definition getComparisonTitle :: "services \<Rightarrow> FileAtHash \<Rightarrow> FileAtHash \<Rightarrow> string" where
  "getComparisonTitle sv left right =
     (let leftFileName = basename sv (fsPath (file' left));
          rightFileName = basename sv (fsPath (file' right))
      in if leftFileName = rightFileName
         then leftFileName @ '' ('' @ short (hash' left) @ '' '' @ arrow @ '' ''
                @ short (hash' right) @ '')''
         else leftFileName @ '' ('' @ short (hash' left) @ '' '' @ arrow @ '' ''
                @ rightFileName @ '' '' @ short (hash' right) @ '')'')"

section \<open>The command handlers\<close>

text \<open>
  \<^verbatim>\<open>nodeOrFileCommit instanceof FileCommitDetails ? nodeOrFileCommit : nodeOrFileCommit.data!\<close>:
  the non-null assertion checks nothing at run time, so the result may be undefined.
\<close>

fun resolveFileCommit :: "NodeOrFileCommit \<Rightarrow> FileCommitDetails option" where
  "resolveFileCommit (FileCommit fc) = Some fc"
| "resolveFileCommit (FileNode d) = d"

text \<open>
  \<^verbatim>\<open>fileCommit.committedFile.oldUri ? fileCommit.committedFile.oldUri : fileCommit.committedFile.uri\<close>
\<close>

definition previousFileOf :: "CommittedFile \<Rightarrow> Uri" where
  "previousFileOf cf = (case oldUri cf of Some u \<Rightarrow> u | None \<Rightarrow> uri cf)"

definition viewFile :: "services \<Rightarrow> NodeOrFileCommit \<Rightarrow> unit io" where
  "viewFile sv nodeOrFileCommit =
     (case resolveFileCommit nodeOrFileCommit of
        None \<Rightarrow> throw_io TypeError
      | Some fileCommit \<Rightarrow>
          bind_io (createGitService (workspaceFolder fileCommit)) (\<lambda>_.
            if status (committedFile fileCommit) = Deleted
            then showErrorMessage ''File cannot be viewed as it was deleted''
            else
              bind_io (callGetCommitFile sv (full (hash (logEntry fileCommit)))
                         (uri (committedFile fileCommit))) (\<lambda>tmpFile.
                executeCommand ''git.openFileInViewer'' [UriArg tmpFile])))"

definition compareFileWithWorkspace :: "services \<Rightarrow> NodeOrFileCommit \<Rightarrow> unit io" where
  "compareFileWithWorkspace sv nodeOrFileCommit =
     (case resolveFileCommit nodeOrFileCommit of
        None \<Rightarrow> throw_io TypeError
      | Some fileCommit \<Rightarrow>
          bind_io (createGitService (workspaceFolder fileCommit)) (\<lambda>_.
            if status (committedFile fileCommit) = Deleted
            then showErrorMessage ''File cannot be compared with, as it was deleted''
            else
              bind_io (callFileExistsAsync sv (path (uri (committedFile fileCommit)))) (\<lambda>ex.
                if \<not> ex
                then showErrorMessage ''Corresponding workspace file does not exist''
                else
                  bind_io (callGetCommitFile sv (full (hash (logEntry fileCommit)))
                             (uri (committedFile fileCommit))) (\<lambda>tmpFile.
                    let fileName = basename sv (path (uri (committedFile fileCommit)));
                        title = fileName @ '' ('' @ short (hash (logEntry fileCommit))
                                  @ '' '' @ arrow @ '' Working File)''
                    in executeCommand ''vscode.diff''
                         [UriArg (uriFile sv (fsPath tmpFile)),
                          UriArg (uriFile sv (path (uri (committedFile fileCommit)))),
                          TitleArg title, PreviewArg True]))))"

definition compareFileWithPrevious :: "services \<Rightarrow> NodeOrFileCommit \<Rightarrow> unit io" where
  "compareFileWithPrevious sv nodeOrFileCommit =
     (case resolveFileCommit nodeOrFileCommit of
        None \<Rightarrow> throw_io TypeError
      | Some fileCommit \<Rightarrow>
          bind_io (createGitService (workspaceFolder fileCommit)) (\<lambda>_.
            if status (committedFile fileCommit) = Deleted
            then
              bind_io (callGetPreviousCommitHashForFile sv (full (hash (logEntry fileCommit)))
                         (uri (committedFile fileCommit))) (\<lambda>previousCommitHash.
                let previousFile = previousFileOf (committedFile fileCommit)
                in bind_io (callGetCommitFile sv (full previousCommitHash) previousFile)
                     (\<lambda>previousTmpFile.
                       bind_io (executeCommand ''vscode.open'' [UriArg previousTmpFile]) (\<lambda>_.
                         showErrorMessage
                           ''File cannot be compared with, as it was deleted. Showing deleted version.'')))
            else if status (committedFile fileCommit) = Added
            then
              bind_io (callGetCommitFile sv (full (hash (logEntry fileCommit)))
                         (uri (committedFile fileCommit))) (\<lambda>tmpFile.
                bind_io (executeCommand ''vscode.open'' [UriArg tmpFile]) (\<lambda>_.
                  showErrorMessage
                    ''File cannot be compared with previous, as this is a new file. Showing it.''))
            else
              bind_io (callGetCommitFile sv (full (hash (logEntry fileCommit)))
                         (uri (committedFile fileCommit))) (\<lambda>tmpFile.
                bind_io (callGetPreviousCommitHashForFile sv (full (hash (logEntry fileCommit)))
                           (uri (committedFile fileCommit))) (\<lambda>previousCommitHash.
                  let previousFile = previousFileOf (committedFile fileCommit)
                  in bind_io (callGetCommitFile sv (full previousCommitHash) previousFile)
                       (\<lambda>previousTmpFile.
                         let title = getComparisonTitle sv
                               \<lparr>file' = uriFile sv (path previousFile),
                                hash' = previousCommitHash\<rparr>
                               \<lparr>file' = uriFile sv (path (uri (committedFile fileCommit))),
                                hash' = hash (logEntry fileCommit)\<rparr>
                         in executeCommand ''vscode.diff''
                              [UriArg previousTmpFile, UriArg tmpFile,
                               TitleArg title, PreviewArg True])))))"

definition viewPreviousFile :: "services \<Rightarrow> NodeOrFileCommit \<Rightarrow> unit io" where
  "viewPreviousFile sv nodeOrFileCommit =
     (case resolveFileCommit nodeOrFileCommit of
        None \<Rightarrow> throw_io TypeError
      | Some fileCommit \<Rightarrow>
          bind_io (createGitService (workspaceFolder fileCommit)) (\<lambda>_.
            if status (committedFile fileCommit) = Added
            then showErrorMessage
                   ''Previous version of the file cannot be opened, as this is a new file''
            else
              bind_io (callGetPreviousCommitHashForFile sv (full (hash (logEntry fileCommit)))
                         (uri (committedFile fileCommit))) (\<lambda>previousCommitHash.
                let previousFile = previousFileOf (committedFile fileCommit)
                in bind_io (callGetCommitFile sv (full previousCommitHash) previousFile)
                     (\<lambda>previousTmpFile.
                       executeCommand ''git.openFileInViewer''
                         [UriArg (uriFile sv (fsPath previousTmpFile))]))))"

text \<open>
  \<^verbatim>\<open>compareFileAcrossCommits\<close> starts both snapshot requests, the left one first, and
  awaits them together with \<^verbatim>\<open>Promise.all\<close>: both requests are issued whatever the
  other answers, and the handler rejects when one of them does (when both do, the model
  reports the rejection of the left request; which of the two comes first in time is
  outside the model).
\<close>

definition compareFileAcrossCommits :: "services \<Rightarrow> CompareFileCommitDetails \<Rightarrow> unit io" where
  "compareFileAcrossCommits sv fileCommit =
     bind_io (createGitService (workspaceFolder fileCommit)) (\<lambda>_.
       if status (committedFile fileCommit) = Deleted
       then showErrorMessage ''File cannot be compared with, as it was deleted''
       else if status (committedFile fileCommit) = Added
       then showErrorMessage ''File cannot be compared, as this is a new file''
       else
         let leftFilePromise = getCommitFile sv (full (hash (logEntry fileCommit)))
                                 (uri (committedFile fileCommit));
             rightFilePromise = getCommitFile sv
                                  (full (hash (logEntry (rightCommit fileCommit))))
                                  (uri (committedFile fileCommit));
             requests = [GetCommitFile (full (hash (logEntry fileCommit)))
                           (uri (committedFile fileCommit)),
                         GetCommitFile (full (hash (logEntry (rightCommit fileCommit))))
                           (uri (committedFile fileCommit))]
         in bind_io
              (case (leftFilePromise, rightFilePromise) of
                 (Inr leftFile, Inr rightFile) \<Rightarrow> (requests, Inr (leftFile, rightFile))
               | (Inl e, _) \<Rightarrow> (requests, Inl e)
               | (Inr _, Inl e) \<Rightarrow> (requests, Inl e))
              (\<lambda>(leftFile, rightFile).
                 let title = getComparisonTitle sv
                       \<lparr>file' = uriFile sv (path (uri (committedFile fileCommit))),
                        hash' = hash (logEntry fileCommit)\<rparr>
                       \<lparr>file' = uriFile sv (path (uri (committedFile fileCommit))),
                        hash' = hash (logEntry (rightCommit fileCommit))\<rparr>
                 in executeCommand ''vscode.diff''
                      [UriArg leftFile, UriArg rightFile, TitleArg title, PreviewArg True]))"

section \<open>Reading a trace\<close>

text \<open>The snapshot requests of a trace, in the order in which they were issued.\<close>

fun fetches :: "event list \<Rightarrow> (string \<times> Uri) list" where
  "fetches [] = []"
| "fetches (GetCommitFile h f # t) = (h, f) # fetches t"
| "fetches (_ # t) = fetches t"

text \<open>The messages shown with \<^verbatim>\<open>showErrorMessage\<close>.\<close>

fun warnings :: "event list \<Rightarrow> string list" where
  "warnings [] = []"
| "warnings (ShowErrorMessage m # t) = m # warnings t"
| "warnings (_ # t) = warnings t"

text \<open>
  The presentation actions: a single-file view (\<^verbatim>\<open>git.openFileInViewer\<close>,
  \<^verbatim>\<open>vscode.open\<close>), a diff view (\<^verbatim>\<open>vscode.diff\<close>) or a message.
\<close>

datatype presentation = SingleFileView | DiffView | ShowWarning

fun presentations :: "event list \<Rightarrow> presentation list" where
  "presentations [] = []"
| "presentations (ShowErrorMessage m # t) = ShowWarning # presentations t"
| "presentations (ExecuteCommand c args # t) =
     (if c = ''vscode.diff'' then DiffView # presentations t
      else if c = ''vscode.open'' \<or> c = ''git.openFileInViewer''
           then SingleFileView # presentations t
      else presentations t)"
| "presentations (_ # t) = presentations t"

section \<open>A concrete environment\<close>

text \<open>
  \<^verbatim>\<open>path.basename\<close> on a POSIX system: trailing separators are dropped and the last
  component is returned.
\<close>

definition posixBasename :: "string \<Rightarrow> string" where
  "posixBasename p =
     rev (takeWhile (\<lambda>c. c \<noteq> CHR ''/'') (dropWhile (\<lambda>c. c = CHR ''/'') (rev p)))"

text \<open>
  \<^verbatim>\<open>Uri.file\<close> on a POSIX system, for a path with no authority part: a missing
  leading separator is added, and \<^verbatim>\<open>fsPath\<close> is the path.
\<close>

definition posixUriFile :: "string \<Rightarrow> Uri" where
  "posixUriFile p =
     (let q = (case p of [] \<Rightarrow> ''/'' | c # _ \<Rightarrow> if c = CHR ''/'' then p else CHR ''/'' # p)
      in \<lparr>path = q, fsPath = q\<rparr>)"

text \<open>
  A git service that finds every snapshot, stores it under \<^verbatim>\<open>/tmp\<close> and names
  \<^verbatim>\<open>cafef00d\<close> as the previous commit of every file; the workspace file exists exactly
  when \<^verbatim>\<open>onDisk\<close> says so.
\<close>

definition tmpFileOf :: "string \<Rightarrow> Uri \<Rightarrow> Uri" where
  "tmpFileOf h f = posixUriFile (''/tmp/'' @ h @ ''-'' @ posixBasename (path f))"

definition cafe :: Hash where
  "cafe = \<lparr>full = ''cafef00d'', short = ''cafe''\<rparr>"

definition dead :: Hash where
  "dead = \<lparr>full = ''deadbeef'', short = ''dead''\<rparr>"

definition demoServices :: "bool \<Rightarrow> services" where
  "demoServices onDisk =
     \<lparr>getCommitFile = (\<lambda>h f. Inr (tmpFileOf h f)),
      getPreviousCommitHashForFile = (\<lambda>h f. Inr cafe),
      fileExistsAsync = (\<lambda>p. onDisk),
      uriFile = posixUriFile,
      basename = posixBasename\<rparr>"

definition demoEntry :: "string \<Rightarrow> string option \<Rightarrow> Status \<Rightarrow> FileCommitDetails" where
  "demoEntry p old st =
     \<lparr>workspaceFolder = ''/repo'',
      logEntry = \<lparr>hash = dead\<rparr>,
      committedFile = \<lparr>uri = posixUriFile p, oldUri = map_option posixUriFile old,
                       status = st\<rparr>\<rparr>"

text \<open>A request to compare a file across two commits, the right one given.\<close>

definition demoCompare :: "string \<Rightarrow> Status \<Rightarrow> Hash \<Rightarrow> CompareFileCommitDetails" where
  "demoCompare p st right =
     \<lparr>workspaceFolder = ''/repo'',
      logEntry = \<lparr>hash = dead\<rparr>,
      committedFile = \<lparr>uri = posixUriFile p, oldUri = None, status = st\<rparr>,
      rightCommit = \<lparr>workspaceFolder = ''/repo'', logEntry = \<lparr>hash = right\<rparr>,
                      committedFile = \<lparr>uri = posixUriFile p, oldUri = None, status = st\<rparr>\<rparr>\<rparr>"

text \<open>A git service that is out of order: every call to it is rejected.\<close>

definition brokenServices :: services where
  "brokenServices =
     \<lparr>getCommitFile = (\<lambda>h f. Inl (ServiceFailure ''no such snapshot'')),
      getPreviousCommitHashForFile = (\<lambda>h f. Inl (ServiceFailure ''no previous commit'')),
      fileExistsAsync = (\<lambda>p. True),
      uriFile = posixUriFile,
      basename = posixBasename\<rparr>"

section \<open>What each handler does, branch by branch\<close>

text \<open>
  The lemmas of this section unfold a handler on one branch of its status test and give
  the whole trace and the outcome, with one case for every answer of the git service.
\<close>

lemmas io_defs = bind_io_def throw_io_def createGitService_def callGetCommitFile_def
  callGetPreviousCommitHashForFile_def callFileExistsAsync_def executeCommand_def
  showErrorMessage_def

lemmas demo_defs = demoServices_def demoEntry_def tmpFileOf_def posixUriFile_def
  posixBasename_def cafe_def dead_def

lemma viewFile_deleted:
  assumes "resolveFileCommit n = Some fc" and "status (committedFile fc) = Deleted"
  shows "viewFile sv n =
           ([CreateGitService (workspaceFolder fc),
             ShowErrorMessage ''File cannot be viewed as it was deleted''], Inr ())"
  using assms by (simp add: viewFile_def io_defs)

lemma viewFile_present:
  assumes "resolveFileCommit n = Some fc" and "status (committedFile fc) \<noteq> Deleted"
  shows "viewFile sv n =
           (case getCommitFile sv (full (hash (logEntry fc))) (uri (committedFile fc)) of
              Inl e \<Rightarrow>
                ([CreateGitService (workspaceFolder fc),
                  GetCommitFile (full (hash (logEntry fc))) (uri (committedFile fc))], Inl e)
            | Inr tmpFile \<Rightarrow>
                ([CreateGitService (workspaceFolder fc),
                  GetCommitFile (full (hash (logEntry fc))) (uri (committedFile fc)),
                  ExecuteCommand ''git.openFileInViewer'' [UriArg tmpFile]], Inr ()))"
  using assms by (simp add: viewFile_def io_defs split: sum.splits)

lemma compareFileWithWorkspace_deleted:
  assumes "resolveFileCommit n = Some fc" and "status (committedFile fc) = Deleted"
  shows "compareFileWithWorkspace sv n =
           ([CreateGitService (workspaceFolder fc),
             ShowErrorMessage ''File cannot be compared with, as it was deleted''], Inr ())"
  using assms by (simp add: compareFileWithWorkspace_def io_defs)

lemma compareFileWithWorkspace_absent:
  assumes "resolveFileCommit n = Some fc" and "status (committedFile fc) \<noteq> Deleted"
    and "\<not> fileExistsAsync sv (path (uri (committedFile fc)))"
  shows "compareFileWithWorkspace sv n =
           ([CreateGitService (workspaceFolder fc),
             FileExistsAsync (path (uri (committedFile fc))),
             ShowErrorMessage ''Corresponding workspace file does not exist''], Inr ())"
  using assms by (simp add: compareFileWithWorkspace_def io_defs)

lemma compareFileWithWorkspace_present:
  assumes "resolveFileCommit n = Some fc" and "status (committedFile fc) \<noteq> Deleted"
    and "fileExistsAsync sv (path (uri (committedFile fc)))"
  shows "compareFileWithWorkspace sv n =
           (case getCommitFile sv (full (hash (logEntry fc))) (uri (committedFile fc)) of
              Inl e \<Rightarrow>
                ([CreateGitService (workspaceFolder fc),
                  FileExistsAsync (path (uri (committedFile fc))),
                  GetCommitFile (full (hash (logEntry fc))) (uri (committedFile fc))], Inl e)
            | Inr tmpFile \<Rightarrow>
                ([CreateGitService (workspaceFolder fc),
                  FileExistsAsync (path (uri (committedFile fc))),
                  GetCommitFile (full (hash (logEntry fc))) (uri (committedFile fc)),
                  ExecuteCommand ''vscode.diff''
                    [UriArg (uriFile sv (fsPath tmpFile)),
                     UriArg (uriFile sv (path (uri (committedFile fc)))),
                     TitleArg (basename sv (path (uri (committedFile fc))) @ '' (''
                               @ short (hash (logEntry fc)) @ '' '' @ arrow
                               @ '' Working File)''),
                     PreviewArg True]], Inr ()))"
  using assms by (simp add: compareFileWithWorkspace_def io_defs split: sum.splits)

lemma compareFileWithPrevious_deleted:
  assumes "resolveFileCommit n = Some fc" and "status (committedFile fc) = Deleted"
  shows "compareFileWithPrevious sv n =
           (case getPreviousCommitHashForFile sv (full (hash (logEntry fc)))
                   (uri (committedFile fc)) of
              Inl e \<Rightarrow>
                ([CreateGitService (workspaceFolder fc),
                  GetPreviousCommitHashForFile (full (hash (logEntry fc)))
                    (uri (committedFile fc))], Inl e)
            | Inr ph \<Rightarrow>
                (case getCommitFile sv (full ph) (previousFileOf (committedFile fc)) of
                   Inl e \<Rightarrow>
                     ([CreateGitService (workspaceFolder fc),
                       GetPreviousCommitHashForFile (full (hash (logEntry fc)))
                         (uri (committedFile fc)),
                       GetCommitFile (full ph) (previousFileOf (committedFile fc))], Inl e)
                 | Inr previousTmpFile \<Rightarrow>
                     ([CreateGitService (workspaceFolder fc),
                       GetPreviousCommitHashForFile (full (hash (logEntry fc)))
                         (uri (committedFile fc)),
                       GetCommitFile (full ph) (previousFileOf (committedFile fc)),
                       ExecuteCommand ''vscode.open'' [UriArg previousTmpFile],
                       ShowErrorMessage
                         ''File cannot be compared with, as it was deleted. Showing deleted version.''],
                      Inr ())))"
  using assms by (simp add: compareFileWithPrevious_def io_defs Let_def split: sum.splits)

lemma compareFileWithPrevious_added:
  assumes "resolveFileCommit n = Some fc" and "status (committedFile fc) = Added"
  shows "compareFileWithPrevious sv n =
           (case getCommitFile sv (full (hash (logEntry fc))) (uri (committedFile fc)) of
              Inl e \<Rightarrow>
                ([CreateGitService (workspaceFolder fc),
                  GetCommitFile (full (hash (logEntry fc))) (uri (committedFile fc))], Inl e)
            | Inr tmpFile \<Rightarrow>
                ([CreateGitService (workspaceFolder fc),
                  GetCommitFile (full (hash (logEntry fc))) (uri (committedFile fc)),
                  ExecuteCommand ''vscode.open'' [UriArg tmpFile],
                  ShowErrorMessage
                    ''File cannot be compared with previous, as this is a new file. Showing it.''],
                 Inr ()))"
  using assms by (simp add: compareFileWithPrevious_def io_defs Let_def split: sum.splits)

lemma compareFileWithPrevious_changed:
  assumes "resolveFileCommit n = Some fc"
    and "status (committedFile fc) \<noteq> Deleted" and "status (committedFile fc) \<noteq> Added"
    and "getCommitFile sv (full (hash (logEntry fc))) (uri (committedFile fc)) = Inr tmpFile"
    and "getPreviousCommitHashForFile sv (full (hash (logEntry fc))) (uri (committedFile fc))
           = Inr ph"
    and "getCommitFile sv (full ph) (previousFileOf (committedFile fc)) = Inr previousTmpFile"
  shows "compareFileWithPrevious sv n =
           ([CreateGitService (workspaceFolder fc),
             GetCommitFile (full (hash (logEntry fc))) (uri (committedFile fc)),
             GetPreviousCommitHashForFile (full (hash (logEntry fc))) (uri (committedFile fc)),
             GetCommitFile (full ph) (previousFileOf (committedFile fc)),
             ExecuteCommand ''vscode.diff''
               [UriArg previousTmpFile, UriArg tmpFile,
                TitleArg (getComparisonTitle sv
                  \<lparr>file' = uriFile sv (path (previousFileOf (committedFile fc))), hash' = ph\<rparr>
                  \<lparr>file' = uriFile sv (path (uri (committedFile fc))),
                   hash' = hash (logEntry fc)\<rparr>),
                PreviewArg True]], Inr ())"
  using assms by (simp add: compareFileWithPrevious_def io_defs Let_def)

lemma viewPreviousFile_added:
  assumes "resolveFileCommit n = Some fc" and "status (committedFile fc) = Added"
  shows "viewPreviousFile sv n =
           ([CreateGitService (workspaceFolder fc),
             ShowErrorMessage
               ''Previous version of the file cannot be opened, as this is a new file''],
            Inr ())"
  using assms by (simp add: viewPreviousFile_def io_defs)

lemma viewPreviousFile_present:
  assumes "resolveFileCommit n = Some fc" and "status (committedFile fc) \<noteq> Added"
  shows "viewPreviousFile sv n =
           (case getPreviousCommitHashForFile sv (full (hash (logEntry fc)))
                   (uri (committedFile fc)) of
              Inl e \<Rightarrow>
                ([CreateGitService (workspaceFolder fc),
                  GetPreviousCommitHashForFile (full (hash (logEntry fc)))
                    (uri (committedFile fc))], Inl e)
            | Inr ph \<Rightarrow>
                (case getCommitFile sv (full ph) (previousFileOf (committedFile fc)) of
                   Inl e \<Rightarrow>
                     ([CreateGitService (workspaceFolder fc),
                       GetPreviousCommitHashForFile (full (hash (logEntry fc)))
                         (uri (committedFile fc)),
                       GetCommitFile (full ph) (previousFileOf (committedFile fc))], Inl e)
                 | Inr previousTmpFile \<Rightarrow>
                     ([CreateGitService (workspaceFolder fc),
                       GetPreviousCommitHashForFile (full (hash (logEntry fc)))
                         (uri (committedFile fc)),
                       GetCommitFile (full ph) (previousFileOf (committedFile fc)),
                       ExecuteCommand ''git.openFileInViewer''
                         [UriArg (uriFile sv (fsPath previousTmpFile))]],
                      Inr ())))"
  using assms by (simp add: viewPreviousFile_def io_defs Let_def split: sum.splits)

lemma compareFileAcrossCommits_deleted:
  assumes "status (committedFile cfc) = Deleted"
  shows "compareFileAcrossCommits sv cfc =
           ([CreateGitService (workspaceFolder cfc),
             ShowErrorMessage ''File cannot be compared with, as it was deleted''], Inr ())"
  using assms by (simp add: compareFileAcrossCommits_def io_defs)

lemma compareFileAcrossCommits_added:
  assumes "status (committedFile cfc) = Added"
  shows "compareFileAcrossCommits sv cfc =
           ([CreateGitService (workspaceFolder cfc),
             ShowErrorMessage ''File cannot be compared, as this is a new file''], Inr ())"
  using assms by (simp add: compareFileAcrossCommits_def io_defs)

lemma compareFileAcrossCommits_changed:
  assumes "status (committedFile cfc) \<noteq> Deleted" and "status (committedFile cfc) \<noteq> Added"
  shows "compareFileAcrossCommits sv cfc =
           (case (getCommitFile sv (full (hash (logEntry cfc))) (uri (committedFile cfc)),
                  getCommitFile sv (full (hash (logEntry (rightCommit cfc))))
                    (uri (committedFile cfc))) of
              (Inr leftFile, Inr rightFile) \<Rightarrow>
                ([CreateGitService (workspaceFolder cfc),
                  GetCommitFile (full (hash (logEntry cfc))) (uri (committedFile cfc)),
                  GetCommitFile (full (hash (logEntry (rightCommit cfc))))
                    (uri (committedFile cfc)),
                  ExecuteCommand ''vscode.diff''
                    [UriArg leftFile, UriArg rightFile,
                     TitleArg (getComparisonTitle sv
                       \<lparr>file' = uriFile sv (path (uri (committedFile cfc))),
                        hash' = hash (logEntry cfc)\<rparr>
                       \<lparr>file' = uriFile sv (path (uri (committedFile cfc))),
                        hash' = hash (logEntry (rightCommit cfc))\<rparr>),
                     PreviewArg True]], Inr ())
            | (Inl e, _) \<Rightarrow>
                ([CreateGitService (workspaceFolder cfc),
                  GetCommitFile (full (hash (logEntry cfc))) (uri (committedFile cfc)),
                  GetCommitFile (full (hash (logEntry (rightCommit cfc))))
                    (uri (committedFile cfc))], Inl e)
            | (Inr _, Inl e) \<Rightarrow>
                ([CreateGitService (workspaceFolder cfc),
                  GetCommitFile (full (hash (logEntry cfc))) (uri (committedFile cfc)),
                  GetCommitFile (full (hash (logEntry (rightCommit cfc))))
                    (uri (committedFile cfc))], Inl e))"
  using assms by (simp add: compareFileAcrossCommits_def io_defs Let_def split: sum.splits)

text \<open>
  Two facts on the shape of a title: it always ends with a blank, the short hash of the
  right side and a closing parenthesis, and such an ending determines a short hash that
  has no blank in it.
\<close>

lemma getComparisonTitle_tail:
  "\<exists>p. getComparisonTitle sv left right = p @ CHR '' '' # short (hash' right) @ '')''"
proof (cases "basename sv (fsPath (file' left)) = basename sv (fsPath (file' right))")
  case True
  then have "getComparisonTitle sv left right =
      (basename sv (fsPath (file' left)) @ '' ('' @ short (hash' left) @ '' '' @ arrow)
        @ CHR '' '' # short (hash' right) @ '')''"
    by (simp add: getComparisonTitle_def)
  then show ?thesis by blast
next
  case False
  then have "getComparisonTitle sv left right =
      (basename sv (fsPath (file' left)) @ '' ('' @ short (hash' left) @ '' '' @ arrow
         @ '' '' @ basename sv (fsPath (file' right)))
        @ CHR '' '' # short (hash' right) @ '')''"
    by (simp add: getComparisonTitle_def)
  then show ?thesis by blast
qed

lemma space_free_tail_inject:
  assumes eq: "p @ CHR '' '' # l @ '')'' = q @ CHR '' '' # r @ '')''"
    and l: "CHR '' '' \<notin> set l" and r: "CHR '' '' \<notin> set r"
  shows "l = r"
proof -
  let ?ok = "\<lambda>c. c \<noteq> CHR '' ''"
  from eq have "p @ CHR '' '' # l = q @ CHR '' '' # r"
    by simp
  then have "rev (p @ CHR '' '' # l) = rev (q @ CHR '' '' # r)"
    by (rule arg_cong)
  then have "rev l @ CHR '' '' # rev p = rev r @ CHR '' '' # rev q"
    by (simp only: rev_append rev.simps append.simps append_assoc)
  then have "takeWhile ?ok (rev l @ CHR '' '' # rev p)
               = takeWhile ?ok (rev r @ CHR '' '' # rev q)"
    by simp
  moreover have "takeWhile ?ok (rev l @ CHR '' '' # rev p) = rev l"
    using l by (auto simp: takeWhile_tail takeWhile_eq_all_conv)
  moreover have "takeWhile ?ok (rev r @ CHR '' '' # rev q) = rev r"
    using r by (auto simp: takeWhile_tail takeWhile_eq_all_conv)
  ultimately show ?thesis by simp
qed


section \<open>Entries of deleted files\<close>

text \<open>
  Claim C1. For an entry whose status is Deleted, the handlers for viewing the file, for
  comparing it with the workspace and for comparing it across two commits request no
  snapshot and show one non-empty message; the handler for comparing with the previous
  version still requests exactly one snapshot, the one of the previous commit (under the
  old path when a rename is recorded), opens it and then shows a message, and ends
  normally. The last part holds when the git service answers both calls.
\<close>

theorem deleted_entry_plans:
  assumes res: "resolveFileCommit n = Some fc"
    and del: "status (committedFile fc) = Deleted"
    and delc: "status (committedFile cfc) = Deleted"
  shows "(fetches (fst (viewFile sv n)) = []
          \<and> warnings (fst (viewFile sv n)) = [''File cannot be viewed as it was deleted'']
          \<and> snd (viewFile sv n) = Inr ())
       \<and> (fetches (fst (compareFileWithWorkspace sv n)) = []
          \<and> warnings (fst (compareFileWithWorkspace sv n))
              = [''File cannot be compared with, as it was deleted'']
          \<and> snd (compareFileWithWorkspace sv n) = Inr ())
       \<and> (fetches (fst (compareFileAcrossCommits sv cfc)) = []
          \<and> warnings (fst (compareFileAcrossCommits sv cfc))
              = [''File cannot be compared with, as it was deleted'']
          \<and> snd (compareFileAcrossCommits sv cfc) = Inr ())
       \<and> (\<forall>ph. getPreviousCommitHashForFile sv (full (hash (logEntry fc)))
                   (uri (committedFile fc)) = Inr ph \<longrightarrow>
             fetches (fst (compareFileWithPrevious sv n))
               = [(full ph, previousFileOf (committedFile fc))]
             \<and> (\<forall>previousTmpFile.
                   getCommitFile sv (full ph) (previousFileOf (committedFile fc))
                     = Inr previousTmpFile \<longrightarrow>
                   compareFileWithPrevious sv n =
                     ([CreateGitService (workspaceFolder fc),
                       GetPreviousCommitHashForFile (full (hash (logEntry fc)))
                         (uri (committedFile fc)),
                       GetCommitFile (full ph) (previousFileOf (committedFile fc)),
                       ExecuteCommand ''vscode.open'' [UriArg previousTmpFile],
                       ShowErrorMessage
                         ''File cannot be compared with, as it was deleted. Showing deleted version.''],
                      Inr ())))"
proof -
  have "fetches (fst (viewFile sv n)) = []
          \<and> warnings (fst (viewFile sv n)) = [''File cannot be viewed as it was deleted'']
          \<and> snd (viewFile sv n) = Inr ()"
    by (simp add: viewFile_deleted [OF res del])
  moreover have "fetches (fst (compareFileWithWorkspace sv n)) = []
          \<and> warnings (fst (compareFileWithWorkspace sv n))
              = [''File cannot be compared with, as it was deleted'']
          \<and> snd (compareFileWithWorkspace sv n) = Inr ()"
    by (simp add: compareFileWithWorkspace_deleted [OF res del])
  moreover have "fetches (fst (compareFileAcrossCommits sv cfc)) = []
          \<and> warnings (fst (compareFileAcrossCommits sv cfc))
              = [''File cannot be compared with, as it was deleted'']
          \<and> snd (compareFileAcrossCommits sv cfc) = Inr ()"
    by (simp add: compareFileAcrossCommits_deleted [OF delc])
  moreover have "\<forall>ph. getPreviousCommitHashForFile sv (full (hash (logEntry fc)))
                   (uri (committedFile fc)) = Inr ph \<longrightarrow>
             fetches (fst (compareFileWithPrevious sv n))
               = [(full ph, previousFileOf (committedFile fc))]
             \<and> (\<forall>previousTmpFile.
                   getCommitFile sv (full ph) (previousFileOf (committedFile fc))
                     = Inr previousTmpFile \<longrightarrow>
                   compareFileWithPrevious sv n =
                     ([CreateGitService (workspaceFolder fc),
                       GetPreviousCommitHashForFile (full (hash (logEntry fc)))
                         (uri (committedFile fc)),
                       GetCommitFile (full ph) (previousFileOf (committedFile fc)),
                       ExecuteCommand ''vscode.open'' [UriArg previousTmpFile],
                       ShowErrorMessage
                         ''File cannot be compared with, as it was deleted. Showing deleted version.''],
                      Inr ()))"
    by (simp add: compareFileWithPrevious_deleted [OF res del] split: sum.splits)
  ultimately show ?thesis by blast
qed

theorem deleted_entry_plans_witness:
  "resolveFileCommit (FileCommit (demoEntry ''gone.py'' None Deleted))
     = Some (demoEntry ''gone.py'' None Deleted)
   \<and> status (committedFile (demoEntry ''gone.py'' None Deleted)) = Deleted
   \<and> status (committedFile (demoCompare ''gone.py'' Deleted cafe)) = Deleted
   \<and> getPreviousCommitHashForFile (demoServices True) ''deadbeef'' (posixUriFile ''gone.py'')
       = Inr cafe
   \<and> getCommitFile (demoServices True) ''cafef00d'' (posixUriFile ''gone.py'')
       = Inr (posixUriFile ''/tmp/cafef00d-gone.py'')
   \<and> fetches (fst (viewFile (demoServices True)
         (FileCommit (demoEntry ''gone.py'' None Deleted)))) = []
   \<and> warnings (fst (compareFileAcrossCommits (demoServices True)
         (demoCompare ''gone.py'' Deleted cafe)))
       = [''File cannot be compared with, as it was deleted'']
   \<and> fetches (fst (compareFileWithPrevious (demoServices True)
         (FileCommit (demoEntry ''gone.py'' None Deleted))))
       = [(''cafef00d'', posixUriFile ''gone.py'')]
   \<and> compareFileWithPrevious (demoServices True)
         (FileCommit (demoEntry ''gone.py'' None Deleted))
       = ([CreateGitService ''/repo'',
           GetPreviousCommitHashForFile ''deadbeef'' (posixUriFile ''gone.py''),
           GetCommitFile ''cafef00d'' (posixUriFile ''gone.py''),
           ExecuteCommand ''vscode.open'' [UriArg (posixUriFile ''/tmp/cafef00d-gone.py'')],
           ShowErrorMessage
             ''File cannot be compared with, as it was deleted. Showing deleted version.''],
          Inr ())"
proof -
  let ?fc = "demoEntry ''gone.py'' None Deleted"
  let ?sv = "demoServices True"
  have res: "resolveFileCommit (FileCommit ?fc) = Some ?fc" by simp
  have del: "status (committedFile ?fc) = Deleted" by (simp add: demoEntry_def)
  have delc: "status (committedFile (demoCompare ''gone.py'' Deleted cafe)) = Deleted"
    by (simp add: demoCompare_def)
  have prev: "getPreviousCommitHashForFile ?sv ''deadbeef'' (posixUriFile ''gone.py'') = Inr cafe"
    by (simp add: demoServices_def)
  have snap: "getCommitFile ?sv ''cafef00d'' (posixUriFile ''gone.py'')
                = Inr (posixUriFile ''/tmp/cafef00d-gone.py'')"
    by (simp add: demo_defs Let_def)
  have fields: "full (hash (logEntry ?fc)) = ''deadbeef''"
    "uri (committedFile ?fc) = posixUriFile ''gone.py''"
    "previousFileOf (committedFile ?fc) = posixUriFile ''gone.py''"
    "workspaceFolder ?fc = ''/repo''" "full cafe = ''cafef00d''"
    by (simp_all add: demoEntry_def dead_def cafe_def previousFileOf_def)
  from deleted_entry_plans [OF res del delc, of ?sv] prev snap
  show ?thesis using res del delc by (simp add: fields)
qed

section \<open>Comparing a changed file with its previous version\<close>

text \<open>
  Claim C2, as stated, orders the two snapshot requests with the previous commit first.
  The handler requests the snapshot of the entry's own commit first, then asks for the
  previous commit and requests its snapshot: for \<^verbatim>\<open>x.py\<close> modified at \<^verbatim>\<open>deadbeef\<close>
  with previous commit \<^verbatim>\<open>cafef00d\<close> the requests are (\<^verbatim>\<open>deadbeef\<close>, \<^verbatim>\<open>x.py\<close>) and then
  (\<^verbatim>\<open>cafef00d\<close>, \<^verbatim>\<open>x.py\<close>).
\<close>

theorem changed_entry_fetch_order_counterexample:
  "status (committedFile (demoEntry ''x.py'' None Modified)) \<noteq> Deleted
   \<and> status (committedFile (demoEntry ''x.py'' None Modified)) \<noteq> Added
   \<and> fetches (fst (compareFileWithPrevious (demoServices True)
         (FileCommit (demoEntry ''x.py'' None Modified))))
       = [(''deadbeef'', posixUriFile ''x.py''), (''cafef00d'', posixUriFile ''x.py'')]
   \<and> fetches (fst (compareFileWithPrevious (demoServices True)
         (FileCommit (demoEntry ''x.py'' None Modified))))
       \<noteq> [(''cafef00d'', posixUriFile ''x.py''), (''deadbeef'', posixUriFile ''x.py'')]"
  by (simp add: compareFileWithPrevious_def io_defs demo_defs previousFileOf_def Let_def)

text \<open>
  Claim C2, amended. For an entry whose status is neither Deleted nor Added, and a git
  service that answers, the handler requests exactly two snapshots, in this order: the
  file at the commit of the entry, then the previous path (when a rename is recorded,
  else the current path) at the previous commit. It shows no message and opens one diff
  whose left side is the snapshot of the previous commit and whose right side is the
  snapshot of the entry's commit. The title is made from the previous path at the
  previous commit (left) and the current path at the entry's commit (right); the
  instance after the theorem gives the titles of the two scenarios, "x.py (cafe <-> dead)" and
  "old.py (cafe <-> new.py dead)", with the arrow character in place of \<^verbatim>\<open><->\<close>.
\<close>

theorem changed_entry_compare_with_previous:
  assumes res: "resolveFileCommit n = Some fc"
    and nd: "status (committedFile fc) \<noteq> Deleted"
    and na: "status (committedFile fc) \<noteq> Added"
    and snap: "getCommitFile sv (full (hash (logEntry fc))) (uri (committedFile fc))
                 = Inr tmpFile"
    and pred: "getPreviousCommitHashForFile sv (full (hash (logEntry fc)))
                 (uri (committedFile fc)) = Inr ph"
    and prev: "getCommitFile sv (full ph)
                 (case oldUri (committedFile fc) of Some old \<Rightarrow> old
                  | None \<Rightarrow> uri (committedFile fc)) = Inr previousTmpFile"
  shows "fetches (fst (compareFileWithPrevious sv n))
           = [(full (hash (logEntry fc)), uri (committedFile fc)),
              (full ph, case oldUri (committedFile fc) of Some old \<Rightarrow> old
                        | None \<Rightarrow> uri (committedFile fc))]
       \<and> warnings (fst (compareFileWithPrevious sv n)) = []
       \<and> presentations (fst (compareFileWithPrevious sv n)) = [DiffView]
       \<and> compareFileWithPrevious sv n =
           ([CreateGitService (workspaceFolder fc),
             GetCommitFile (full (hash (logEntry fc))) (uri (committedFile fc)),
             GetPreviousCommitHashForFile (full (hash (logEntry fc))) (uri (committedFile fc)),
             GetCommitFile (full ph)
               (case oldUri (committedFile fc) of Some old \<Rightarrow> old
                | None \<Rightarrow> uri (committedFile fc)),
             ExecuteCommand ''vscode.diff''
               [UriArg previousTmpFile, UriArg tmpFile,
                TitleArg (getComparisonTitle sv
                  \<lparr>file' = uriFile sv
                      (path (case oldUri (committedFile fc) of Some old \<Rightarrow> old
                             | None \<Rightarrow> uri (committedFile fc))),
                   hash' = ph\<rparr>
                  \<lparr>file' = uriFile sv (path (uri (committedFile fc))),
                   hash' = hash (logEntry fc)\<rparr>),
                PreviewArg True]], Inr ())"
proof -
  have prev': "getCommitFile sv (full ph) (previousFileOf (committedFile fc))
                 = Inr previousTmpFile"
    using prev by (simp add: previousFileOf_def)
  have whole: "compareFileWithPrevious sv n =
           ([CreateGitService (workspaceFolder fc),
             GetCommitFile (full (hash (logEntry fc))) (uri (committedFile fc)),
             GetPreviousCommitHashForFile (full (hash (logEntry fc))) (uri (committedFile fc)),
             GetCommitFile (full ph) (previousFileOf (committedFile fc)),
             ExecuteCommand ''vscode.diff''
               [UriArg previousTmpFile, UriArg tmpFile,
                TitleArg (getComparisonTitle sv
                  \<lparr>file' = uriFile sv (path (previousFileOf (committedFile fc))), hash' = ph\<rparr>
                  \<lparr>file' = uriFile sv (path (uri (committedFile fc))),
                   hash' = hash (logEntry fc)\<rparr>),
                PreviewArg True]], Inr ())"
    by (rule compareFileWithPrevious_changed [OF res nd na snap pred prev'])
  show ?thesis
    by (simp add: whole) (simp add: previousFileOf_def)
qed

theorem changed_entry_compare_with_previous_witness:
  "compareFileWithPrevious (demoServices True) (FileCommit (demoEntry ''x.py'' None Modified))
     = ([CreateGitService ''/repo'',
         GetCommitFile ''deadbeef'' (posixUriFile ''x.py''),
         GetPreviousCommitHashForFile ''deadbeef'' (posixUriFile ''x.py''),
         GetCommitFile ''cafef00d'' (posixUriFile ''x.py''),
         ExecuteCommand ''vscode.diff''
           [UriArg (posixUriFile ''/tmp/cafef00d-x.py''),
            UriArg (posixUriFile ''/tmp/deadbeef-x.py''),
            TitleArg (''x.py (cafe '' @ arrow @ '' dead)''), PreviewArg True]], Inr ())
   \<and> compareFileWithPrevious (demoServices True)
         (FileCommit (demoEntry ''new.py'' (Some ''old.py'') RenamedOrOther))
     = ([CreateGitService ''/repo'',
         GetCommitFile ''deadbeef'' (posixUriFile ''new.py''),
         GetPreviousCommitHashForFile ''deadbeef'' (posixUriFile ''new.py''),
         GetCommitFile ''cafef00d'' (posixUriFile ''old.py''),
         ExecuteCommand ''vscode.diff''
           [UriArg (posixUriFile ''/tmp/cafef00d-old.py''),
            UriArg (posixUriFile ''/tmp/deadbeef-new.py''),
            TitleArg (''old.py (cafe '' @ arrow @ '' new.py dead)''), PreviewArg True]],
        Inr ())"
proof -
  let ?sv = "demoServices True"
  let ?m = "demoEntry ''x.py'' None Modified"
  let ?r = "demoEntry ''new.py'' (Some ''old.py'') RenamedOrOther"
  have m: "resolveFileCommit (FileCommit ?m) = Some ?m"
    "status (committedFile ?m) \<noteq> Deleted" "status (committedFile ?m) \<noteq> Added"
    "getCommitFile ?sv (full (hash (logEntry ?m))) (uri (committedFile ?m))
       = Inr (posixUriFile ''/tmp/deadbeef-x.py'')"
    "getPreviousCommitHashForFile ?sv (full (hash (logEntry ?m))) (uri (committedFile ?m))
       = Inr cafe"
    "getCommitFile ?sv (full cafe)
       (case oldUri (committedFile ?m) of Some old \<Rightarrow> old | None \<Rightarrow> uri (committedFile ?m))
       = Inr (posixUriFile ''/tmp/cafef00d-x.py'')"
    by (simp_all add: demo_defs Let_def)
  have r: "resolveFileCommit (FileCommit ?r) = Some ?r"
    "status (committedFile ?r) \<noteq> Deleted" "status (committedFile ?r) \<noteq> Added"
    "getCommitFile ?sv (full (hash (logEntry ?r))) (uri (committedFile ?r))
       = Inr (posixUriFile ''/tmp/deadbeef-new.py'')"
    "getPreviousCommitHashForFile ?sv (full (hash (logEntry ?r))) (uri (committedFile ?r))
       = Inr cafe"
    "getCommitFile ?sv (full cafe)
       (case oldUri (committedFile ?r) of Some old \<Rightarrow> old | None \<Rightarrow> uri (committedFile ?r))
       = Inr (posixUriFile ''/tmp/cafef00d-old.py'')"
    by (simp_all add: demo_defs Let_def)
  have fields: "workspaceFolder ?m = ''/repo''" "workspaceFolder ?r = ''/repo''"
    "full (hash (logEntry ?m)) = ''deadbeef''" "full (hash (logEntry ?r)) = ''deadbeef''"
    "full cafe = ''cafef00d''"
    "uri (committedFile ?m) = posixUriFile ''x.py''"
    "uri (committedFile ?r) = posixUriFile ''new.py''"
    "oldUri (committedFile ?m) = None"
    "oldUri (committedFile ?r) = Some (posixUriFile ''old.py'')"
    by (simp_all add: demoEntry_def dead_def cafe_def)
  have titles: "getComparisonTitle ?sv
        \<lparr>file' = uriFile ?sv (path (posixUriFile ''x.py'')), hash' = cafe\<rparr>
        \<lparr>file' = uriFile ?sv (path (posixUriFile ''x.py'')), hash' = hash (logEntry ?m)\<rparr>
      = ''x.py (cafe '' @ arrow @ '' dead)''"
    "getComparisonTitle ?sv
        \<lparr>file' = uriFile ?sv (path (posixUriFile ''old.py'')), hash' = cafe\<rparr>
        \<lparr>file' = uriFile ?sv (path (posixUriFile ''new.py'')), hash' = hash (logEntry ?r)\<rparr>
      = ''old.py (cafe '' @ arrow @ '' new.py dead)''"
    by (simp_all add: getComparisonTitle_def demo_defs Let_def)
  from changed_entry_compare_with_previous [OF m] changed_entry_compare_with_previous [OF r]
  show ?thesis by (simp add: fields titles)
qed

section \<open>Comparing an added file with its previous version\<close>

text \<open>
  Claim C3. For an entry whose status is Added, the handler for comparing with the
  previous version requests exactly one snapshot, the file at the commit of the entry;
  when the git service delivers it, the handler opens it in a single-file view
  (\<^verbatim>\<open>vscode.open\<close>) instead of a diff, then shows the message
  "File cannot be compared with previous, as this is a new file. Showing it." and ends
  normally.
\<close>

theorem added_entry_compare_with_previous:
  assumes res: "resolveFileCommit n = Some fc"
    and added: "status (committedFile fc) = Added"
  shows "fetches (fst (compareFileWithPrevious sv n))
           = [(full (hash (logEntry fc)), uri (committedFile fc))]
       \<and> (\<forall>tmpFile.
            getCommitFile sv (full (hash (logEntry fc))) (uri (committedFile fc)) = Inr tmpFile
            \<longrightarrow>
            compareFileWithPrevious sv n =
              ([CreateGitService (workspaceFolder fc),
                GetCommitFile (full (hash (logEntry fc))) (uri (committedFile fc)),
                ExecuteCommand ''vscode.open'' [UriArg tmpFile],
                ShowErrorMessage
                  ''File cannot be compared with previous, as this is a new file. Showing it.''],
               Inr ())
            \<and> warnings (fst (compareFileWithPrevious sv n))
                = [''File cannot be compared with previous, as this is a new file. Showing it.'']
            \<and> presentations (fst (compareFileWithPrevious sv n))
                = [SingleFileView, ShowWarning])"
  by (simp add: compareFileWithPrevious_added [OF res added] split: sum.splits)

theorem added_entry_compare_with_previous_witness:
  "resolveFileCommit (FileNode (Some (demoEntry ''new.py'' None Added)))
     = Some (demoEntry ''new.py'' None Added)
   \<and> status (committedFile (demoEntry ''new.py'' None Added)) = Added
   \<and> getCommitFile (demoServices True) ''deadbeef'' (posixUriFile ''new.py'')
       = Inr (posixUriFile ''/tmp/deadbeef-new.py'')
   \<and> fetches (fst (compareFileWithPrevious (demoServices True)
         (FileNode (Some (demoEntry ''new.py'' None Added)))))
       = [(''deadbeef'', posixUriFile ''new.py'')]
   \<and> compareFileWithPrevious (demoServices True)
         (FileNode (Some (demoEntry ''new.py'' None Added)))
       = ([CreateGitService ''/repo'',
           GetCommitFile ''deadbeef'' (posixUriFile ''new.py''),
           ExecuteCommand ''vscode.open'' [UriArg (posixUriFile ''/tmp/deadbeef-new.py'')],
           ShowErrorMessage
             ''File cannot be compared with previous, as this is a new file. Showing it.''],
          Inr ())"
proof -
  let ?fc = "demoEntry ''new.py'' None Added"
  let ?sv = "demoServices True"
  have res: "resolveFileCommit (FileNode (Some ?fc)) = Some ?fc" by simp
  have added: "status (committedFile ?fc) = Added" by (simp add: demoEntry_def)
  have snap: "getCommitFile ?sv ''deadbeef'' (posixUriFile ''new.py'')
                = Inr (posixUriFile ''/tmp/deadbeef-new.py'')"
    by (simp add: demo_defs Let_def)
  have fields: "full (hash (logEntry ?fc)) = ''deadbeef''"
    "uri (committedFile ?fc) = posixUriFile ''new.py''"
    "workspaceFolder ?fc = ''/repo''"
    by (simp_all add: demoEntry_def dead_def)
  from added_entry_compare_with_previous [OF res added, of ?sv] snap
  show ?thesis using res added by (simp add: fields)
qed

section \<open>Comparing a file with the workspace\<close>

text \<open>
  Claim C4, as stated, gives the message for a missing workspace file with a full stop
  at its end. The message of the handler has none.
\<close>

theorem workspace_file_absent_message_counterexample:
  "status (committedFile (demoEntry ''x.py'' None Modified)) \<noteq> Deleted
   \<and> \<not> fileExistsAsync (demoServices False)
         (path (uri (committedFile (demoEntry ''x.py'' None Modified))))
   \<and> warnings (fst (compareFileWithWorkspace (demoServices False)
         (FileCommit (demoEntry ''x.py'' None Modified))))
       \<noteq> [''Corresponding workspace file does not exist.'']"
  by (simp add: compareFileWithWorkspace_def io_defs demo_defs Let_def)

text \<open>
  Claim C4, amended. For an entry whose status is not Deleted: when the existence check
  says that the workspace file is absent, the handler requests no snapshot and shows
  the message "Corresponding workspace file does not exist" (no full stop); otherwise
  it requests exactly one snapshot, the file at the commit of the entry, and, when the
  git service delivers it, opens a diff whose second side is the workspace file itself,
  not a snapshot.
\<close>

theorem compare_with_workspace_plan:
  assumes res: "resolveFileCommit n = Some fc"
    and nd: "status (committedFile fc) \<noteq> Deleted"
  shows "(\<not> fileExistsAsync sv (path (uri (committedFile fc))) \<longrightarrow>
            fetches (fst (compareFileWithWorkspace sv n)) = []
            \<and> warnings (fst (compareFileWithWorkspace sv n))
                = [''Corresponding workspace file does not exist'']
            \<and> presentations (fst (compareFileWithWorkspace sv n)) = [ShowWarning]
            \<and> snd (compareFileWithWorkspace sv n) = Inr ())
       \<and> (fileExistsAsync sv (path (uri (committedFile fc))) \<longrightarrow>
            fetches (fst (compareFileWithWorkspace sv n))
              = [(full (hash (logEntry fc)), uri (committedFile fc))]
            \<and> warnings (fst (compareFileWithWorkspace sv n)) = []
            \<and> (\<forall>tmpFile.
                  getCommitFile sv (full (hash (logEntry fc))) (uri (committedFile fc))
                    = Inr tmpFile \<longrightarrow>
                  compareFileWithWorkspace sv n =
                    ([CreateGitService (workspaceFolder fc),
                      FileExistsAsync (path (uri (committedFile fc))),
                      GetCommitFile (full (hash (logEntry fc))) (uri (committedFile fc)),
                      ExecuteCommand ''vscode.diff''
                        [UriArg (uriFile sv (fsPath tmpFile)),
                         UriArg (uriFile sv (path (uri (committedFile fc)))),
                         TitleArg (basename sv (path (uri (committedFile fc))) @ '' (''
                                   @ short (hash (logEntry fc)) @ '' '' @ arrow
                                   @ '' Working File)''),
                         PreviewArg True]], Inr ())))"
proof (intro conjI impI)
  assume absent: "\<not> fileExistsAsync sv (path (uri (committedFile fc)))"
  note whole = compareFileWithWorkspace_absent [OF res nd absent]
  show "fetches (fst (compareFileWithWorkspace sv n)) = []"
    by (simp add: whole)
  show "warnings (fst (compareFileWithWorkspace sv n))
          = [''Corresponding workspace file does not exist'']"
    by (simp add: whole)
  show "presentations (fst (compareFileWithWorkspace sv n)) = [ShowWarning]"
    by (simp add: whole)
  show "snd (compareFileWithWorkspace sv n) = Inr ()"
    by (simp add: whole)
next
  assume present: "fileExistsAsync sv (path (uri (committedFile fc)))"
  note whole = compareFileWithWorkspace_present [OF res nd present]
  show "fetches (fst (compareFileWithWorkspace sv n))
          = [(full (hash (logEntry fc)), uri (committedFile fc))]"
    by (simp add: whole split: sum.splits)
  show "warnings (fst (compareFileWithWorkspace sv n)) = []"
    by (simp add: whole split: sum.splits)
  show "\<forall>tmpFile.
          getCommitFile sv (full (hash (logEntry fc))) (uri (committedFile fc)) = Inr tmpFile
          \<longrightarrow>
          compareFileWithWorkspace sv n =
            ([CreateGitService (workspaceFolder fc),
              FileExistsAsync (path (uri (committedFile fc))),
              GetCommitFile (full (hash (logEntry fc))) (uri (committedFile fc)),
              ExecuteCommand ''vscode.diff''
                [UriArg (uriFile sv (fsPath tmpFile)),
                 UriArg (uriFile sv (path (uri (committedFile fc)))),
                 TitleArg (basename sv (path (uri (committedFile fc))) @ '' (''
                           @ short (hash (logEntry fc)) @ '' '' @ arrow
                           @ '' Working File)''),
                 PreviewArg True]], Inr ())"
    by (simp add: whole)
qed

theorem compare_with_workspace_plan_witness:
  "warnings (fst (compareFileWithWorkspace (demoServices False)
       (FileCommit (demoEntry ''x.py'' None Modified))))
     = [''Corresponding workspace file does not exist'']
   \<and> fetches (fst (compareFileWithWorkspace (demoServices False)
       (FileCommit (demoEntry ''x.py'' None Modified)))) = []
   \<and> compareFileWithWorkspace (demoServices True)
         (FileCommit (demoEntry ''x.py'' None Modified))
     = ([CreateGitService ''/repo'', FileExistsAsync ''/x.py'',
         GetCommitFile ''deadbeef'' (posixUriFile ''x.py''),
         ExecuteCommand ''vscode.diff''
           [UriArg (posixUriFile ''/tmp/deadbeef-x.py''), UriArg (posixUriFile ''/x.py''),
            TitleArg (''x.py (dead '' @ arrow @ '' Working File)''), PreviewArg True]],
        Inr ())"
proof -
  let ?m = "demoEntry ''x.py'' None Modified"
  have res: "resolveFileCommit (FileCommit ?m) = Some ?m" by simp
  have nd: "status (committedFile ?m) \<noteq> Deleted" by (simp add: demoEntry_def)
  have absent: "\<not> fileExistsAsync (demoServices False) (path (uri (committedFile ?m)))"
    by (simp add: demoServices_def)
  have present: "fileExistsAsync (demoServices True) (path (uri (committedFile ?m)))"
    by (simp add: demoServices_def)
  have snap: "getCommitFile (demoServices True) (full (hash (logEntry ?m)))
                (uri (committedFile ?m)) = Inr (posixUriFile ''/tmp/deadbeef-x.py'')"
    by (simp add: demo_defs Let_def)
  have fields: "workspaceFolder ?m = ''/repo''" "full (hash (logEntry ?m)) = ''deadbeef''"
    "short (hash (logEntry ?m)) = ''dead''"
    "uri (committedFile ?m) = posixUriFile ''x.py''"
    "path (posixUriFile ''x.py'') = ''/x.py''"
    "fsPath (posixUriFile ''/tmp/deadbeef-x.py'') = ''/tmp/deadbeef-x.py''"
    "uriFile (demoServices True) = posixUriFile"
    "basename (demoServices True) ''/x.py'' = ''x.py''"
    by (simp_all add: demo_defs Let_def)
  from compare_with_workspace_plan [OF res nd, of "demoServices False"]
    compare_with_workspace_plan [OF res nd, of "demoServices True"]
    absent present snap
  show ?thesis by (simp add: fields)
qed

section \<open>Viewing the previous version of a file\<close>

text \<open>
  Claim C5, as stated, gives the message for an added file with a full stop at its end.
  The message of the handler has none.
\<close>

theorem view_previous_added_message_counterexample:
  "status (committedFile (demoEntry ''new.py'' None Added)) = Added
   \<and> warnings (fst (viewPreviousFile (demoServices True)
         (FileCommit (demoEntry ''new.py'' None Added))))
       \<noteq> [''Previous version of the file cannot be opened, as this is a new file.'']"
  by (simp add: viewPreviousFile_def io_defs demo_defs Let_def)

text \<open>
  Claim C5, amended. When the status is Added, the handler requests no snapshot and
  shows the message "Previous version of the file cannot be opened, as this is a new
  file" (no full stop). Otherwise it shows no message and, once the git service has
  named the previous commit, requests exactly one snapshot at that commit, under the
  recorded old path when the entry records a rename and under the current path
  otherwise; when the snapshot is delivered it is opened in a single-file view.
\<close>

theorem view_previous_plan:
  assumes res: "resolveFileCommit n = Some fc"
  shows "(status (committedFile fc) = Added \<longrightarrow>
            fetches (fst (viewPreviousFile sv n)) = []
            \<and> warnings (fst (viewPreviousFile sv n))
                = [''Previous version of the file cannot be opened, as this is a new file'']
            \<and> presentations (fst (viewPreviousFile sv n)) = [ShowWarning]
            \<and> snd (viewPreviousFile sv n) = Inr ())
       \<and> (status (committedFile fc) \<noteq> Added \<longrightarrow>
            warnings (fst (viewPreviousFile sv n)) = []
            \<and> (\<forall>ph. getPreviousCommitHashForFile sv (full (hash (logEntry fc)))
                       (uri (committedFile fc)) = Inr ph \<longrightarrow>
                  fetches (fst (viewPreviousFile sv n))
                    = [(full ph, case oldUri (committedFile fc) of Some old \<Rightarrow> old
                                 | None \<Rightarrow> uri (committedFile fc))]
                  \<and> (\<forall>previousTmpFile.
                        getCommitFile sv (full ph)
                          (case oldUri (committedFile fc) of Some old \<Rightarrow> old
                           | None \<Rightarrow> uri (committedFile fc)) = Inr previousTmpFile \<longrightarrow>
                        presentations (fst (viewPreviousFile sv n)) = [SingleFileView]
                        \<and> snd (viewPreviousFile sv n) = Inr ())))"
proof (intro conjI impI allI)
  assume added: "status (committedFile fc) = Added"
  note whole = viewPreviousFile_added [OF res added]
  show "fetches (fst (viewPreviousFile sv n)) = []"
    by (simp add: whole)
  show "warnings (fst (viewPreviousFile sv n))
          = [''Previous version of the file cannot be opened, as this is a new file'']"
    by (simp add: whole)
  show "presentations (fst (viewPreviousFile sv n)) = [ShowWarning]"
    by (simp add: whole)
  show "snd (viewPreviousFile sv n) = Inr ()"
    by (simp add: whole)
next
  assume na: "status (committedFile fc) \<noteq> Added"
  show "warnings (fst (viewPreviousFile sv n)) = []"
    by (simp add: viewPreviousFile_present [OF res na] split: sum.splits)
next
  fix ph
  assume na: "status (committedFile fc) \<noteq> Added"
    and pred: "getPreviousCommitHashForFile sv (full (hash (logEntry fc)))
                 (uri (committedFile fc)) = Inr ph"
  show "fetches (fst (viewPreviousFile sv n))
          = [(full ph, case oldUri (committedFile fc) of Some old \<Rightarrow> old
                       | None \<Rightarrow> uri (committedFile fc))]"
    by (simp add: viewPreviousFile_present [OF res na] pred previousFileOf_def
          split: sum.splits)
next
  fix ph previousTmpFile
  assume na: "status (committedFile fc) \<noteq> Added"
    and pred: "getPreviousCommitHashForFile sv (full (hash (logEntry fc)))
                 (uri (committedFile fc)) = Inr ph"
    and prev: "getCommitFile sv (full ph)
                 (case oldUri (committedFile fc) of Some old \<Rightarrow> old
                  | None \<Rightarrow> uri (committedFile fc)) = Inr previousTmpFile"
  from prev have prev': "getCommitFile sv (full ph) (previousFileOf (committedFile fc))
                           = Inr previousTmpFile"
    by (simp add: previousFileOf_def)
  show "presentations (fst (viewPreviousFile sv n)) = [SingleFileView]"
    by (simp add: viewPreviousFile_present [OF res na] pred prev')
  show "snd (viewPreviousFile sv n) = Inr ()"
    by (simp add: viewPreviousFile_present [OF res na] pred prev')
qed

theorem view_previous_plan_witness:
  "warnings (fst (viewPreviousFile (demoServices True)
       (FileCommit (demoEntry ''new.py'' None Added))))
     = [''Previous version of the file cannot be opened, as this is a new file'']
   \<and> fetches (fst (viewPreviousFile (demoServices True)
       (FileCommit (demoEntry ''new.py'' None Added)))) = []
   \<and> fetches (fst (viewPreviousFile (demoServices True)
       (FileCommit (demoEntry ''new.py'' (Some ''old.py'') RenamedOrOther))))
     = [(''cafef00d'', posixUriFile ''old.py'')]
   \<and> fetches (fst (viewPreviousFile (demoServices True)
       (FileCommit (demoEntry ''x.py'' None Modified))))
     = [(''cafef00d'', posixUriFile ''x.py'')]
   \<and> presentations (fst (viewPreviousFile (demoServices True)
       (FileCommit (demoEntry ''x.py'' None Modified)))) = [SingleFileView]"
proof -
  let ?sv = "demoServices True"
  let ?a = "demoEntry ''new.py'' None Added"
  let ?m = "demoEntry ''x.py'' None Modified"
  let ?r = "demoEntry ''new.py'' (Some ''old.py'') RenamedOrOther"
  have res: "resolveFileCommit (FileCommit ?a) = Some ?a"
    "resolveFileCommit (FileCommit ?m) = Some ?m"
    "resolveFileCommit (FileCommit ?r) = Some ?r"
    by simp_all
  have st: "status (committedFile ?a) = Added" "status (committedFile ?m) \<noteq> Added"
    "status (committedFile ?r) \<noteq> Added"
    by (simp_all add: demoEntry_def)
  have pred: "getPreviousCommitHashForFile ?sv (full (hash (logEntry ?m)))
                (uri (committedFile ?m)) = Inr cafe"
    "getPreviousCommitHashForFile ?sv (full (hash (logEntry ?r)))
                (uri (committedFile ?r)) = Inr cafe"
    by (simp_all add: demoServices_def)
  have prev: "getCommitFile ?sv (full cafe)
       (case oldUri (committedFile ?m) of Some old \<Rightarrow> old | None \<Rightarrow> uri (committedFile ?m))
       = Inr (posixUriFile ''/tmp/cafef00d-x.py'')"
    by (simp add: demo_defs Let_def)
  have fields: "full cafe = ''cafef00d''"
    "uri (committedFile ?m) = posixUriFile ''x.py''"
    "oldUri (committedFile ?m) = None"
    "oldUri (committedFile ?r) = Some (posixUriFile ''old.py'')"
    by (simp_all add: demoEntry_def cafe_def)
  from view_previous_plan [OF res(1), of ?sv] view_previous_plan [OF res(2), of ?sv]
    view_previous_plan [OF res(3), of ?sv] st pred prev
  show ?thesis by (simp add: fields)
qed

section \<open>Comparing a file across two commits\<close>

text \<open>
  Claim C6, as stated, gives the message for an added file with a full stop at its end.
  The message of the handler has none.
\<close>

theorem compare_across_added_message_counterexample:
  "status (committedFile (demoCompare ''new.py'' Added cafe)) = Added
   \<and> warnings (fst (compareFileAcrossCommits (demoServices True)
         (demoCompare ''new.py'' Added cafe)))
       \<noteq> [''File cannot be compared, as this is a new file.'']"
  by (simp add: compareFileAcrossCommits_def io_defs demoCompare_def)

text \<open>
  Claim C6, amended. When the status is Deleted, the handler requests no snapshot and
  the message is exactly "File cannot be compared with, as it was deleted". When the
  status is Added, it requests no snapshot and the message is "File cannot be compared,
  as this is a new file" (no full stop). Otherwise it shows no message and requests
  exactly two snapshots, the path of the entry at the left commit and the same path at
  the right commit; when both are delivered it opens a diff of the two, whose title is
  made from that one path with the left hash and with the right hash (an old path of a
  rename is not used).
\<close>

theorem compare_across_commits_plan:
  "(status (committedFile cfc) = Deleted \<longrightarrow>
      fetches (fst (compareFileAcrossCommits sv cfc)) = []
      \<and> warnings (fst (compareFileAcrossCommits sv cfc))
          = [''File cannot be compared with, as it was deleted''])
   \<and> (status (committedFile cfc) = Added \<longrightarrow>
      fetches (fst (compareFileAcrossCommits sv cfc)) = []
      \<and> warnings (fst (compareFileAcrossCommits sv cfc))
          = [''File cannot be compared, as this is a new file''])
   \<and> (status (committedFile cfc) \<noteq> Deleted \<and> status (committedFile cfc) \<noteq> Added \<longrightarrow>
      fetches (fst (compareFileAcrossCommits sv cfc))
        = [(full (hash (logEntry cfc)), uri (committedFile cfc)),
           (full (hash (logEntry (rightCommit cfc))), uri (committedFile cfc))]
      \<and> warnings (fst (compareFileAcrossCommits sv cfc)) = []
      \<and> (\<forall>leftFile rightFile.
            getCommitFile sv (full (hash (logEntry cfc))) (uri (committedFile cfc))
              = Inr leftFile
            \<and> getCommitFile sv (full (hash (logEntry (rightCommit cfc))))
                (uri (committedFile cfc)) = Inr rightFile \<longrightarrow>
            compareFileAcrossCommits sv cfc =
              ([CreateGitService (workspaceFolder cfc),
                GetCommitFile (full (hash (logEntry cfc))) (uri (committedFile cfc)),
                GetCommitFile (full (hash (logEntry (rightCommit cfc))))
                  (uri (committedFile cfc)),
                ExecuteCommand ''vscode.diff''
                  [UriArg leftFile, UriArg rightFile,
                   TitleArg (getComparisonTitle sv
                     \<lparr>file' = uriFile sv (path (uri (committedFile cfc))),
                      hash' = hash (logEntry cfc)\<rparr>
                     \<lparr>file' = uriFile sv (path (uri (committedFile cfc))),
                      hash' = hash (logEntry (rightCommit cfc))\<rparr>),
                   PreviewArg True]], Inr ())))"
proof (intro conjI impI allI)
  assume del: "status (committedFile cfc) = Deleted"
  show "fetches (fst (compareFileAcrossCommits sv cfc)) = []"
    by (simp add: compareFileAcrossCommits_deleted [OF del])
  show "warnings (fst (compareFileAcrossCommits sv cfc))
          = [''File cannot be compared with, as it was deleted'']"
    by (simp add: compareFileAcrossCommits_deleted [OF del])
next
  assume added: "status (committedFile cfc) = Added"
  show "fetches (fst (compareFileAcrossCommits sv cfc)) = []"
    by (simp add: compareFileAcrossCommits_added [OF added])
  show "warnings (fst (compareFileAcrossCommits sv cfc))
          = [''File cannot be compared, as this is a new file'']"
    by (simp add: compareFileAcrossCommits_added [OF added])
next
  assume st: "status (committedFile cfc) \<noteq> Deleted \<and> status (committedFile cfc) \<noteq> Added"
  then have nd: "status (committedFile cfc) \<noteq> Deleted"
    and na: "status (committedFile cfc) \<noteq> Added"
    by simp_all
  note whole = compareFileAcrossCommits_changed [OF nd na]
  show "fetches (fst (compareFileAcrossCommits sv cfc))
        = [(full (hash (logEntry cfc)), uri (committedFile cfc)),
           (full (hash (logEntry (rightCommit cfc))), uri (committedFile cfc))]"
    by (simp add: whole split: sum.splits)
  show "warnings (fst (compareFileAcrossCommits sv cfc)) = []"
    by (simp add: whole split: sum.splits)
next
  fix leftFile rightFile
  assume st: "status (committedFile cfc) \<noteq> Deleted \<and> status (committedFile cfc) \<noteq> Added"
    and snaps: "getCommitFile sv (full (hash (logEntry cfc))) (uri (committedFile cfc))
              = Inr leftFile
            \<and> getCommitFile sv (full (hash (logEntry (rightCommit cfc))))
                (uri (committedFile cfc)) = Inr rightFile"
  from st have nd: "status (committedFile cfc) \<noteq> Deleted"
    and na: "status (committedFile cfc) \<noteq> Added"
    by simp_all
  show "compareFileAcrossCommits sv cfc =
              ([CreateGitService (workspaceFolder cfc),
                GetCommitFile (full (hash (logEntry cfc))) (uri (committedFile cfc)),
                GetCommitFile (full (hash (logEntry (rightCommit cfc))))
                  (uri (committedFile cfc)),
                ExecuteCommand ''vscode.diff''
                  [UriArg leftFile, UriArg rightFile,
                   TitleArg (getComparisonTitle sv
                     \<lparr>file' = uriFile sv (path (uri (committedFile cfc))),
                      hash' = hash (logEntry cfc)\<rparr>
                     \<lparr>file' = uriFile sv (path (uri (committedFile cfc))),
                      hash' = hash (logEntry (rightCommit cfc))\<rparr>),
                   PreviewArg True]], Inr ())"
    using snaps by (simp add: compareFileAcrossCommits_changed [OF nd na])
qed

theorem compare_across_commits_plan_witness:
  "warnings (fst (compareFileAcrossCommits (demoServices True)
       (demoCompare ''gone.py'' Deleted cafe)))
     = [''File cannot be compared with, as it was deleted'']
   \<and> warnings (fst (compareFileAcrossCommits (demoServices True)
       (demoCompare ''new.py'' Added cafe)))
     = [''File cannot be compared, as this is a new file'']
   \<and> fetches (fst (compareFileAcrossCommits (demoServices True)
       (demoCompare ''new.py'' Added cafe))) = []
   \<and> compareFileAcrossCommits (demoServices True) (demoCompare ''x.py'' Modified cafe)
     = ([CreateGitService ''/repo'',
         GetCommitFile ''deadbeef'' (posixUriFile ''x.py''),
         GetCommitFile ''cafef00d'' (posixUriFile ''x.py''),
         ExecuteCommand ''vscode.diff''
           [UriArg (posixUriFile ''/tmp/deadbeef-x.py''),
            UriArg (posixUriFile ''/tmp/cafef00d-x.py''),
            TitleArg (''x.py (dead '' @ arrow @ '' cafe)''), PreviewArg True]], Inr ())"
proof -
  let ?sv = "demoServices True"
  let ?d = "demoCompare ''gone.py'' Deleted cafe"
  let ?a = "demoCompare ''new.py'' Added cafe"
  let ?m = "demoCompare ''x.py'' Modified cafe"
  have st: "status (committedFile ?d) = Deleted" "status (committedFile ?a) = Added"
    "status (committedFile ?m) \<noteq> Deleted \<and> status (committedFile ?m) \<noteq> Added"
    by (simp_all add: demoCompare_def)
  have snaps: "getCommitFile ?sv (full (hash (logEntry ?m))) (uri (committedFile ?m))
              = Inr (posixUriFile ''/tmp/deadbeef-x.py'')
            \<and> getCommitFile ?sv (full (hash (logEntry (rightCommit ?m))))
                (uri (committedFile ?m)) = Inr (posixUriFile ''/tmp/cafef00d-x.py'')"
    by (simp add: demoCompare_def demo_defs Let_def)
  have fields: "workspaceFolder ?m = ''/repo''"
    "full (hash (logEntry ?m)) = ''deadbeef''"
    "full (hash (logEntry (rightCommit ?m))) = ''cafef00d''"
    "uri (committedFile ?m) = posixUriFile ''x.py''"
    by (simp_all add: demoCompare_def dead_def cafe_def)
  have title: "getComparisonTitle ?sv
        \<lparr>file' = uriFile ?sv (path (posixUriFile ''x.py'')), hash' = hash (logEntry ?m)\<rparr>
        \<lparr>file' = uriFile ?sv (path (posixUriFile ''x.py'')),
         hash' = hash (logEntry (rightCommit ?m))\<rparr>
      = ''x.py (dead '' @ arrow @ '' cafe)''"
    by (simp add: getComparisonTitle_def demoCompare_def demo_defs Let_def)
  from compare_across_commits_plan [of ?d ?sv] compare_across_commits_plan [of ?a ?sv]
    compare_across_commits_plan [of ?m ?sv] st snaps
  show ?thesis by (simp add: fields title)
qed

section \<open>The format of a comparison title\<close>

text \<open>
  Claim C7. When the base names of both sides are equal, the title is the name, then in
  parentheses the short hash of the left side, the arrow and the short hash of the right
  side. When they differ, the title is the left name, then in parentheses the left short
  hash, the arrow, the right name and the right short hash: the right side repeats its
  name and the left side does not.
\<close>

theorem comparison_title_format:
  "(basename sv (fsPath (file' left)) = basename sv (fsPath (file' right)) \<longrightarrow>
      getComparisonTitle sv left right =
        basename sv (fsPath (file' left)) @ '' ('' @ short (hash' left) @ '' '' @ arrow
          @ '' '' @ short (hash' right) @ '')'')
   \<and> (basename sv (fsPath (file' left)) \<noteq> basename sv (fsPath (file' right)) \<longrightarrow>
      getComparisonTitle sv left right =
        basename sv (fsPath (file' left)) @ '' ('' @ short (hash' left) @ '' '' @ arrow
          @ '' '' @ basename sv (fsPath (file' right)) @ '' '' @ short (hash' right)
          @ '')'')"
  by (simp add: getComparisonTitle_def)

theorem comparison_title_format_witness:
  "basename (demoServices True) (fsPath (posixUriFile ''a/b.txt''))
     = basename (demoServices True) (fsPath (posixUriFile ''c/b.txt''))
   \<and> getComparisonTitle (demoServices True)
        \<lparr>file' = posixUriFile ''a/b.txt'', hash' = cafe\<rparr>
        \<lparr>file' = posixUriFile ''c/b.txt'', hash' = dead\<rparr>
       = ''b.txt (cafe '' @ arrow @ '' dead)''
   \<and> basename (demoServices True) (fsPath (posixUriFile ''a/old.txt''))
       \<noteq> basename (demoServices True) (fsPath (posixUriFile ''c/new.txt''))
   \<and> getComparisonTitle (demoServices True)
        \<lparr>file' = posixUriFile ''a/old.txt'', hash' = cafe\<rparr>
        \<lparr>file' = posixUriFile ''c/new.txt'', hash' = dead\<rparr>
       = ''old.txt (cafe '' @ arrow @ '' new.txt dead)''"
proof -
  let ?sv = "demoServices True"
  have names: "basename ?sv (fsPath (posixUriFile ''a/b.txt'')) = ''b.txt''"
    "basename ?sv (fsPath (posixUriFile ''c/b.txt'')) = ''b.txt''"
    "basename ?sv (fsPath (posixUriFile ''a/old.txt'')) = ''old.txt''"
    "basename ?sv (fsPath (posixUriFile ''c/new.txt'')) = ''new.txt''"
    by (simp_all add: demoServices_def posixUriFile_def posixBasename_def Let_def)
  have hashes: "short cafe = ''cafe''" "short dead = ''dead''"
    by (simp_all add: cafe_def dead_def)
  from comparison_title_format [of ?sv "\<lparr>file' = posixUriFile ''a/b.txt'', hash' = cafe\<rparr>"
      "\<lparr>file' = posixUriFile ''c/b.txt'', hash' = dead\<rparr>"]
    comparison_title_format [of ?sv "\<lparr>file' = posixUriFile ''a/old.txt'', hash' = cafe\<rparr>"
      "\<lparr>file' = posixUriFile ''c/new.txt'', hash' = dead\<rparr>"]
  show ?thesis by (simp add: names hashes)
qed

section \<open>Swapping the two sides of a title\<close>

text \<open>
  Claim C8, as stated, says that swapping the two sides changes the title for every
  pair of sides. It does not when both sides have the same base name and the same short
  hash, as for two paths with one file name at one commit.
\<close>

theorem comparison_title_swap_counterexample:
  "\<lparr>file' = posixUriFile ''a/b.txt'', hash' = dead\<rparr>
     \<noteq> \<lparr>file' = posixUriFile ''c/b.txt'', hash' = dead\<rparr>
   \<and> getComparisonTitle (demoServices True)
        \<lparr>file' = posixUriFile ''c/b.txt'', hash' = dead\<rparr>
        \<lparr>file' = posixUriFile ''a/b.txt'', hash' = dead\<rparr>
     = getComparisonTitle (demoServices True)
        \<lparr>file' = posixUriFile ''a/b.txt'', hash' = dead\<rparr>
        \<lparr>file' = posixUriFile ''c/b.txt'', hash' = dead\<rparr>"
  by (simp add: getComparisonTitle_def demoServices_def posixUriFile_def posixBasename_def
        Let_def)

text \<open>
  Claim C8, amended. The title is a function of its two sides (the same sides give the
  same title, and every pair of sides has one). Swapping the sides changes the title
  whenever the two short hashes differ and contain no blank, as abbreviated hexadecimal
  hashes do; it leaves the title unchanged when both sides have the same base name and
  the same short hash.
\<close>

theorem comparison_title_swap:
  "(CHR '' '' \<notin> set (short (hash' left)) \<and> CHR '' '' \<notin> set (short (hash' right))
      \<and> short (hash' left) \<noteq> short (hash' right) \<longrightarrow>
      getComparisonTitle sv left right \<noteq> getComparisonTitle sv right left)
   \<and> (basename sv (fsPath (file' left)) = basename sv (fsPath (file' right))
      \<and> short (hash' left) = short (hash' right) \<longrightarrow>
      getComparisonTitle sv left right = getComparisonTitle sv right left)"
proof (intro conjI impI)
  assume a: "CHR '' '' \<notin> set (short (hash' left)) \<and> CHR '' '' \<notin> set (short (hash' right))
      \<and> short (hash' left) \<noteq> short (hash' right)"
  obtain p where p: "getComparisonTitle sv left right = p @ CHR '' '' # short (hash' right) @ '')''"
    using getComparisonTitle_tail [of sv left right] by (elim exE)
  obtain q where q: "getComparisonTitle sv right left = q @ CHR '' '' # short (hash' left) @ '')''"
    using getComparisonTitle_tail [of sv right left] by (elim exE)
  show "getComparisonTitle sv left right \<noteq> getComparisonTitle sv right left"
  proof
    assume "getComparisonTitle sv left right = getComparisonTitle sv right left"
    with p q have eq: "p @ CHR '' '' # short (hash' right) @ '')''
                         = q @ CHR '' '' # short (hash' left) @ '')''"
      by (simp only:)
    from a have r: "CHR '' '' \<notin> set (short (hash' right))"
      and l: "CHR '' '' \<notin> set (short (hash' left))"
      by blast+
    have "short (hash' right) = short (hash' left)"
      by (rule space_free_tail_inject [OF eq r l])
    with a show False by simp
  qed
next
  assume "basename sv (fsPath (file' left)) = basename sv (fsPath (file' right))
      \<and> short (hash' left) = short (hash' right)"
  then show "getComparisonTitle sv left right = getComparisonTitle sv right left"
    by (simp add: getComparisonTitle_def)
qed

theorem comparison_title_swap_witness:
  "CHR '' '' \<notin> set (short cafe) \<and> CHR '' '' \<notin> set (short dead) \<and> short cafe \<noteq> short dead
   \<and> getComparisonTitle (demoServices True)
        \<lparr>file' = posixUriFile ''a/b.txt'', hash' = cafe\<rparr>
        \<lparr>file' = posixUriFile ''c/b.txt'', hash' = dead\<rparr>
     \<noteq> getComparisonTitle (demoServices True)
        \<lparr>file' = posixUriFile ''c/b.txt'', hash' = dead\<rparr>
        \<lparr>file' = posixUriFile ''a/b.txt'', hash' = cafe\<rparr>
   \<and> basename (demoServices True) (fsPath (posixUriFile ''a/b.txt''))
       = basename (demoServices True) (fsPath (posixUriFile ''c/b.txt''))
   \<and> getComparisonTitle (demoServices True)
        \<lparr>file' = posixUriFile ''a/b.txt'', hash' = dead\<rparr>
        \<lparr>file' = posixUriFile ''c/b.txt'', hash' = dead\<rparr>
     = getComparisonTitle (demoServices True)
        \<lparr>file' = posixUriFile ''c/b.txt'', hash' = dead\<rparr>
        \<lparr>file' = posixUriFile ''a/b.txt'', hash' = dead\<rparr>"
proof -
  let ?sv = "demoServices True"
  have names: "basename ?sv (fsPath (posixUriFile ''a/b.txt''))
                 = basename ?sv (fsPath (posixUriFile ''c/b.txt''))"
    by (simp add: demoServices_def posixUriFile_def posixBasename_def Let_def)
  have hashes: "CHR '' '' \<notin> set (short cafe)" "CHR '' '' \<notin> set (short dead)"
    "short cafe \<noteq> short dead"
    by (simp_all add: cafe_def dead_def)
  from comparison_title_swap [of "\<lparr>file' = posixUriFile ''a/b.txt'', hash' = cafe\<rparr>"
      "\<lparr>file' = posixUriFile ''c/b.txt'', hash' = dead\<rparr>" ?sv]
    comparison_title_swap [of "\<lparr>file' = posixUriFile ''a/b.txt'', hash' = dead\<rparr>"
      "\<lparr>file' = posixUriFile ''c/b.txt'', hash' = dead\<rparr>" ?sv]
  show ?thesis using names hashes by simp
qed

text \<open>
  The condition on blanks cannot be dropped: with an empty short hash on one side and a
  short hash made of a blank, the arrow and a blank on the other, both orders give the
  same title.
\<close>

lemma comparison_title_swap_needs_blank_free:
  "short \<lparr>full = '''', short = ''''\<rparr> \<noteq> short \<lparr>full = '''', short = '' '' @ arrow @ '' ''\<rparr>
   \<and> getComparisonTitle sv
        \<lparr>file' = f, hash' = \<lparr>full = '''', short = ''''\<rparr>\<rparr>
        \<lparr>file' = f, hash' = \<lparr>full = '''', short = '' '' @ arrow @ '' ''\<rparr>\<rparr>
     = getComparisonTitle sv
        \<lparr>file' = f, hash' = \<lparr>full = '''', short = '' '' @ arrow @ '' ''\<rparr>\<rparr>
        \<lparr>file' = f, hash' = \<lparr>full = '''', short = ''''\<rparr>\<rparr>"
  by (simp add: getComparisonTitle_def)

section \<open>Presentation actions of a request\<close>

text \<open>
  Claim C9, as stated, says that every request invokes exactly one of the three
  presentation actions and never both a file view and a message. The handler for
  comparing with the previous version, given an added file, opens the file and then
  shows a message: two actions.
\<close>

theorem two_presentations_counterexample:
  "presentations (fst (compareFileWithPrevious (demoServices True)
       (FileCommit (demoEntry ''new.py'' None Added))))
     = [SingleFileView, ShowWarning]
   \<and> length (presentations (fst (compareFileWithPrevious (demoServices True)
       (FileCommit (demoEntry ''new.py'' None Added))))) \<noteq> 1"
  by (simp add: compareFileWithPrevious_def io_defs demo_defs Let_def)

text \<open>
  Claim C9, amended. A request that ends normally invokes exactly one presentation
  action (a single-file view, a diff view or a message), except a request to compare
  with the previous version for an entry whose status is Added or Deleted, which
  invokes two: a single-file view of the one available snapshot, then a message. A
  request that is rejected invokes none.
\<close>

theorem presentation_actions:
  assumes res: "resolveFileCommit n = Some fc"
  shows "(snd (viewFile sv n) = Inr () \<longrightarrow>
            presentations (fst (viewFile sv n))
              = (if status (committedFile fc) = Deleted then [ShowWarning]
                 else [SingleFileView]))
       \<and> (snd (compareFileWithWorkspace sv n) = Inr () \<longrightarrow>
            presentations (fst (compareFileWithWorkspace sv n))
              = (if status (committedFile fc) = Deleted
                    \<or> \<not> fileExistsAsync sv (path (uri (committedFile fc)))
                 then [ShowWarning] else [DiffView]))
       \<and> (snd (compareFileWithPrevious sv n) = Inr () \<longrightarrow>
            presentations (fst (compareFileWithPrevious sv n))
              = (if status (committedFile fc) = Deleted \<or> status (committedFile fc) = Added
                 then [SingleFileView, ShowWarning] else [DiffView]))
       \<and> (snd (viewPreviousFile sv n) = Inr () \<longrightarrow>
            presentations (fst (viewPreviousFile sv n))
              = (if status (committedFile fc) = Added then [ShowWarning]
                 else [SingleFileView]))
       \<and> (snd (compareFileAcrossCommits sv cfc) = Inr () \<longrightarrow>
            presentations (fst (compareFileAcrossCommits sv cfc))
              = (if status (committedFile cfc) = Deleted \<or> status (committedFile cfc) = Added
                 then [ShowWarning] else [DiffView]))
       \<and> (\<forall>e. snd (viewFile sv n) = Inl e \<longrightarrow> presentations (fst (viewFile sv n)) = [])
       \<and> (\<forall>e. snd (compareFileWithWorkspace sv n) = Inl e \<longrightarrow>
              presentations (fst (compareFileWithWorkspace sv n)) = [])
       \<and> (\<forall>e. snd (compareFileWithPrevious sv n) = Inl e \<longrightarrow>
              presentations (fst (compareFileWithPrevious sv n)) = [])
       \<and> (\<forall>e. snd (viewPreviousFile sv n) = Inl e \<longrightarrow>
              presentations (fst (viewPreviousFile sv n)) = [])
       \<and> (\<forall>e. snd (compareFileAcrossCommits sv cfc) = Inl e \<longrightarrow>
              presentations (fst (compareFileAcrossCommits sv cfc)) = [])"
proof (intro conjI)
  show "snd (viewFile sv n) = Inr () \<longrightarrow>
            presentations (fst (viewFile sv n))
              = (if status (committedFile fc) = Deleted then [ShowWarning]
                 else [SingleFileView])"
    using res by (simp add: viewFile_def io_defs split: sum.splits)
  show "snd (compareFileWithWorkspace sv n) = Inr () \<longrightarrow>
            presentations (fst (compareFileWithWorkspace sv n))
              = (if status (committedFile fc) = Deleted
                    \<or> \<not> fileExistsAsync sv (path (uri (committedFile fc)))
                 then [ShowWarning] else [DiffView])"
    using res by (simp add: compareFileWithWorkspace_def io_defs Let_def split: sum.splits)
  show "snd (compareFileWithPrevious sv n) = Inr () \<longrightarrow>
            presentations (fst (compareFileWithPrevious sv n))
              = (if status (committedFile fc) = Deleted \<or> status (committedFile fc) = Added
                 then [SingleFileView, ShowWarning] else [DiffView])"
    using res by (simp add: compareFileWithPrevious_def io_defs Let_def split: sum.splits)
  show "snd (viewPreviousFile sv n) = Inr () \<longrightarrow>
            presentations (fst (viewPreviousFile sv n))
              = (if status (committedFile fc) = Added then [ShowWarning]
                 else [SingleFileView])"
    using res by (simp add: viewPreviousFile_def io_defs Let_def split: sum.splits)
  show "snd (compareFileAcrossCommits sv cfc) = Inr () \<longrightarrow>
            presentations (fst (compareFileAcrossCommits sv cfc))
              = (if status (committedFile cfc) = Deleted \<or> status (committedFile cfc) = Added
                 then [ShowWarning] else [DiffView])"
    by (simp add: compareFileAcrossCommits_def io_defs Let_def split: sum.splits)
  show "\<forall>e. snd (viewFile sv n) = Inl e \<longrightarrow> presentations (fst (viewFile sv n)) = []"
    using res by (simp add: viewFile_def io_defs split: sum.splits)
  show "\<forall>e. snd (compareFileWithWorkspace sv n) = Inl e \<longrightarrow>
              presentations (fst (compareFileWithWorkspace sv n)) = []"
    using res by (simp add: compareFileWithWorkspace_def io_defs Let_def split: sum.splits)
  show "\<forall>e. snd (compareFileWithPrevious sv n) = Inl e \<longrightarrow>
              presentations (fst (compareFileWithPrevious sv n)) = []"
    using res by (simp add: compareFileWithPrevious_def io_defs Let_def split: sum.splits)
  show "\<forall>e. snd (viewPreviousFile sv n) = Inl e \<longrightarrow>
              presentations (fst (viewPreviousFile sv n)) = []"
    using res by (simp add: viewPreviousFile_def io_defs Let_def split: sum.splits)
  show "\<forall>e. snd (compareFileAcrossCommits sv cfc) = Inl e \<longrightarrow>
              presentations (fst (compareFileAcrossCommits sv cfc)) = []"
    by (simp add: compareFileAcrossCommits_def io_defs Let_def split: sum.splits)
qed

theorem presentation_actions_witness:
  "resolveFileCommit (FileCommit (demoEntry ''new.py'' None Added))
     = Some (demoEntry ''new.py'' None Added)
   \<and> snd (viewFile (demoServices True) (FileCommit (demoEntry ''new.py'' None Added)))
       = Inr ()
   \<and> presentations (fst (viewFile (demoServices True)
         (FileCommit (demoEntry ''new.py'' None Added)))) = [SingleFileView]
   \<and> snd (compareFileWithWorkspace (demoServices True)
         (FileCommit (demoEntry ''new.py'' None Added))) = Inr ()
   \<and> presentations (fst (compareFileWithWorkspace (demoServices True)
         (FileCommit (demoEntry ''new.py'' None Added)))) = [DiffView]
   \<and> snd (compareFileWithPrevious (demoServices True)
         (FileCommit (demoEntry ''new.py'' None Added))) = Inr ()
   \<and> presentations (fst (compareFileWithPrevious (demoServices True)
         (FileCommit (demoEntry ''new.py'' None Added)))) = [SingleFileView, ShowWarning]
   \<and> snd (viewPreviousFile (demoServices True)
         (FileCommit (demoEntry ''new.py'' None Added))) = Inr ()
   \<and> presentations (fst (viewPreviousFile (demoServices True)
         (FileCommit (demoEntry ''new.py'' None Added)))) = [ShowWarning]
   \<and> snd (compareFileAcrossCommits (demoServices True) (demoCompare ''x.py'' Modified cafe))
       = Inr ()
   \<and> presentations (fst (compareFileAcrossCommits (demoServices True)
         (demoCompare ''x.py'' Modified cafe))) = [DiffView]
   \<and> snd (viewFile brokenServices (FileCommit (demoEntry ''new.py'' None Added)))
       = Inl (ServiceFailure ''no such snapshot'')
   \<and> presentations (fst (viewFile brokenServices
         (FileCommit (demoEntry ''new.py'' None Added)))) = []
   \<and> snd (compareFileWithPrevious brokenServices
         (FileCommit (demoEntry ''new.py'' None Added)))
       = Inl (ServiceFailure ''no such snapshot'')
   \<and> presentations (fst (compareFileWithPrevious brokenServices
         (FileCommit (demoEntry ''new.py'' None Added)))) = []"
proof -
  let ?sv = "demoServices True"
  let ?a = "demoEntry ''new.py'' None Added"
  let ?m = "demoCompare ''x.py'' Modified cafe"
  have res: "resolveFileCommit (FileCommit ?a) = Some ?a" by simp
  have st: "status (committedFile ?a) = Added" "status (committedFile ?a) \<noteq> Deleted"
    "status (committedFile ?m) \<noteq> Deleted" "status (committedFile ?m) \<noteq> Added"
    "fileExistsAsync ?sv (path (uri (committedFile ?a)))"
    by (simp_all add: demoEntry_def demoCompare_def demoServices_def)
  have ok: "snd (viewFile ?sv (FileCommit ?a)) = Inr ()"
    "snd (compareFileWithWorkspace ?sv (FileCommit ?a)) = Inr ()"
    "snd (compareFileWithPrevious ?sv (FileCommit ?a)) = Inr ()"
    "snd (viewPreviousFile ?sv (FileCommit ?a)) = Inr ()"
    "snd (compareFileAcrossCommits ?sv ?m) = Inr ()"
    by (simp_all add: viewFile_def compareFileWithWorkspace_def compareFileWithPrevious_def
          viewPreviousFile_def compareFileAcrossCommits_def io_defs demoEntry_def
          demoCompare_def demoServices_def Let_def)
  have failed: "snd (viewFile brokenServices (FileCommit ?a))
                  = Inl (ServiceFailure ''no such snapshot'')"
    "snd (compareFileWithPrevious brokenServices (FileCommit ?a))
       = Inl (ServiceFailure ''no such snapshot'')"
    by (simp_all add: viewFile_def compareFileWithPrevious_def io_defs demoEntry_def
          brokenServices_def)
  from presentation_actions [OF res, of ?sv ?m] presentation_actions [OF res, of brokenServices ?m]
  show ?thesis using res st ok failed by simp
qed

section \<open>A file node without data\<close>

text \<open>
  Claim C10. The four handlers that take a file node or a file commit read the entry of
  a node from its data field without a check. Given a node whose data is undefined, each
  of them is rejected with a type error before it calls any collaborator: the trace is
  empty, so no status is tested and no message is shown. A node with data behaves as the
  entry it carries.
\<close>

theorem undefined_node_data_fails_first:
  "resolveFileCommit (FileNode d) = d
   \<and> viewFile sv (FileNode (Some fc)) = viewFile sv (FileCommit fc)
   \<and> compareFileWithWorkspace sv (FileNode (Some fc))
       = compareFileWithWorkspace sv (FileCommit fc)
   \<and> compareFileWithPrevious sv (FileNode (Some fc))
       = compareFileWithPrevious sv (FileCommit fc)
   \<and> viewPreviousFile sv (FileNode (Some fc)) = viewPreviousFile sv (FileCommit fc)
   \<and> viewFile sv (FileNode None) = ([], Inl TypeError)
   \<and> compareFileWithWorkspace sv (FileNode None) = ([], Inl TypeError)
   \<and> compareFileWithPrevious sv (FileNode None) = ([], Inl TypeError)
   \<and> viewPreviousFile sv (FileNode None) = ([], Inl TypeError)
   \<and> warnings (fst (viewFile sv (FileNode None))) = []
   \<and> warnings (fst (compareFileWithWorkspace sv (FileNode None))) = []
   \<and> warnings (fst (compareFileWithPrevious sv (FileNode None))) = []
   \<and> warnings (fst (viewPreviousFile sv (FileNode None))) = []"
  by (simp add: viewFile_def compareFileWithWorkspace_def compareFileWithPrevious_def
        viewPreviousFile_def throw_io_def)

end
